theory Spec2Isabelle
  imports Complex_Main
begin

section \<open>TransNet: the notebook's computation graph, its training and evaluation loops\<close>

text \<open>
  The notebook \<^verbatim>\<open>transNet.ipynb\<close> is a Python script that first builds a TensorFlow
  computation graph (placeholders, variables, operations) and then runs it in a session:
  a warm-up loop, a joint training loop and a periodic evaluation. The graph the script
  builds is a Python value, so it is modelled here as a value too: a term of the datatype
  \<open>node\<close>, one constructor for each TensorFlow operation the notebook calls. What
  \<^verbatim>\<open>sess.run\<close> computes for a node is the function \<open>eval\<close>. The operations compute on
  \<^verbatim>\<open>float32\<close> tensors; here their elements are real numbers, and the rounding of each
  operation is in general not modelled. What is modelled of \<^verbatim>\<open>float32\<close> is the sum of
  squares of \<^verbatim>\<open>tf.nn.l2_normalize\<close>, which overflows to \<^verbatim>\<open>inf\<close>, and the sum inside
  \<^verbatim>\<open>tf.nn.sigmoid\<close>, whose rounding makes the sigmoid constant over ranges of large
  inputs and exactly 1 from about 16.64 on. The sums of \<^verbatim>\<open>tf.matmul\<close> can overflow too;
  this is not modelled, and the statements that depend on it assume magnitudes at which
  it does not happen. Shape errors, unfed placeholders and out-of-range indices, which
  TensorFlow reports as exceptions, are error values.
\<close>

subsection \<open>Hyper-parameters (second code cell)\<close>

definition learning_rate :: real where "learning_rate = 1 / 1000"
definition warm_up_epochs :: nat where "warm_up_epochs = 20"
definition epochs :: nat where "epochs = 66"
definition batch_size :: nat where "batch_size = 100"
definition eval_batch_size :: nat where "eval_batch_size = 2000"
definition display_step :: nat where "display_step = 5"
definition gamma :: real where "gamma = 1"
definition alpha :: real where "alpha = 1 / 2"
definition l2_lambda :: real where "l2_lambda = 1 / 1000"
definition beta :: real where "beta = 50"
definition keep_prob :: real where "keep_prob = 1 / 2"
definition rep_size :: nat where "rep_size = 64"
definition hits_k :: "nat list" where "hits_k = [1, 5, 10]"

subsection \<open>Tensors, variables, placeholders\<close>

type_synonym vec = "real list"
type_synonym mat = "real list list"

text \<open>
  A tensor value, by rank and element type. \<open>Stack d t\<close> is a rank-3 tensor
  \<open>[batch, k, d]\<close>; the size \<open>d\<close> of its last axis is kept beside the nested list, which
  would lose it when the middle axis is empty.
\<close>

datatype tensor =
    Scalar real
  | Vector "real list"
  | Matrix "real list list"
  | Ids "int list"
  | Indices "nat list list"
  | Stack nat "real list list list"

datatype var = Int_embeddings | Adv_embeddings | Encoder_w | Decoder_w | Encoder_b | Decoder_b

datatype placeholder = Pos_h | Pos_t | Pos_r | Pos_br | Neg_h | Neg_t | Neg_r | Neg_br

text \<open>The two dropout operations of the graph: \<^verbatim>\<open>autoencoder\<close> is called twice.\<close>

datatype dropout_op = Dropout_pos | Dropout_neg

datatype tf_error =
    PlaceholderNotFed placeholder
  | FeedShape placeholder
  | IndexOutOfRange
  | IncompatibleShapes
  | TooFewColumns
  | TypeMismatch

text \<open>
  The values of the six \<^verbatim>\<open>tf.Variable\<close>s: \<^verbatim>\<open>node_lookup\<close>, \<^verbatim>\<open>relation_weights\<close>
  and \<^verbatim>\<open>relation_biases\<close>.
\<close>

record variables =
  int_embeddings :: mat
  adv_embeddings :: mat
  encoder_w :: mat
  decoder_w :: mat
  encoder_b :: vec
  decoder_b :: vec

fun var_tensor :: "variables \<Rightarrow> var \<Rightarrow> tensor" where
  "var_tensor s Int_embeddings = Matrix (int_embeddings s)"
| "var_tensor s Adv_embeddings = Matrix (adv_embeddings s)"
| "var_tensor s Encoder_w = Matrix (encoder_w s)"
| "var_tensor s Decoder_w = Matrix (decoder_w s)"
| "var_tensor s Encoder_b = Vector (encoder_b s)"
| "var_tensor s Decoder_b = Vector (decoder_b s)"

text \<open>
  The variables are created with static shapes \<^verbatim>\<open>[entity_total, rep_size]\<close>,
  \<^verbatim>\<open>[tag_total, rep_size]\<close>, \<^verbatim>\<open>[rep_size, tag_total]\<close>, \<^verbatim>\<open>[rep_size]\<close> and
  \<^verbatim>\<open>[tag_total]\<close>, which no update changes.
\<close>

definition has_shape :: "nat \<Rightarrow> nat \<Rightarrow> 'a list list \<Rightarrow> bool" where
  "has_shape r c m = (length m = r \<and> list_all (\<lambda>row. length row = c) m)"

definition variables_ok :: "nat \<Rightarrow> nat \<Rightarrow> variables \<Rightarrow> bool" where
  "variables_ok entity_total tag_total s =
     (has_shape entity_total rep_size (int_embeddings s) \<and>
      has_shape entity_total rep_size (adv_embeddings s) \<and>
      has_shape tag_total rep_size (encoder_w s) \<and>
      has_shape rep_size tag_total (decoder_w s) \<and>
      length (encoder_b s) = rep_size \<and>
      length (decoder_b s) = tag_total)"

text \<open>
  A feed dictionary gives values to some placeholders. The placeholders are declared
  \<^verbatim>\<open>tf.int32 [None]\<close> (the four vertex-ID vectors) and
  \<^verbatim>\<open>tf.float32 [None, tag_total]\<close> (the label and weight matrices); feeding a value of
  another shape raises.
\<close>

type_synonym feed_dict = "placeholder \<rightharpoonup> tensor"

fun is_id_placeholder :: "placeholder \<Rightarrow> bool" where
  "is_id_placeholder Pos_h = True"
| "is_id_placeholder Pos_t = True"
| "is_id_placeholder Neg_h = True"
| "is_id_placeholder Neg_t = True"
| "is_id_placeholder _ = False"

fun feed_fits :: "nat \<Rightarrow> placeholder \<Rightarrow> tensor \<Rightarrow> bool" where
  "feed_fits tag_total p (Ids xs) = is_id_placeholder p"
| "feed_fits tag_total p (Matrix m) =
     (\<not> is_id_placeholder p \<and> list_all (\<lambda>row. length row = tag_total) m)"
| "feed_fits tag_total p _ = False"

definition read_placeholder :: "nat \<Rightarrow> feed_dict \<Rightarrow> placeholder \<Rightarrow> tf_error + tensor" where
  "read_placeholder tag_total fd p =
     (case fd p of
        None \<Rightarrow> Inl (PlaceholderNotFed p)
      | Some t \<Rightarrow> if feed_fits tag_total p t then Inr t else Inl (FeedShape p))"

text \<open>The random draw of one run: for each dropout operation, which elements it keeps.\<close>

type_synonym draws = "dropout_op \<Rightarrow> nat \<Rightarrow> nat \<Rightarrow> bool"

subsection \<open>The TensorFlow operations the notebook calls\<close>

text \<open>
  Each operation is defined at the ranks and element types at which the notebook's graph
  applies it; at any other it answers \<open>TypeMismatch\<close>. The graph of the notebook is well
  typed, so this answer does not arise from it: the lemmas on its nodes below show a value
  for every well-formed feed.
\<close>

definition tf_bind :: "tf_error + 'a \<Rightarrow> ('a \<Rightarrow> tf_error + 'b) \<Rightarrow> tf_error + 'b" where
  "tf_bind m f = (case m of Inl e \<Rightarrow> Inl e | Inr x \<Rightarrow> f x)"

text \<open>An operation with two inputs fails with the error of its first failing input.\<close>

definition tf_bind2 ::
  "tf_error + 'a \<Rightarrow> tf_error + 'b \<Rightarrow> ('a \<Rightarrow> 'b \<Rightarrow> tf_error + 'c) \<Rightarrow> tf_error + 'c" where
  "tf_bind2 m n f = tf_bind m (\<lambda>x. tf_bind n (\<lambda>y. f x y))"

text \<open>
  The largest finite \<^verbatim>\<open>float32\<close>, \<^verbatim>\<open>(2 - 2^-23) * 2^127\<close>: a result above it is
  \<^verbatim>\<open>inf\<close>.
\<close>

definition float32_max :: real where
  "float32_max = 2 ^ 128 - 2 ^ 104"

text \<open>
  Element-wise unary operations: \<^verbatim>\<open>tf.nn.tanh\<close>, \<^verbatim>\<open>tf.nn.sigmoid\<close>, \<^verbatim>\<open>tf.abs\<close>.
  The kernel of \<^verbatim>\<open>tf.nn.sigmoid\<close> computes \<^verbatim>\<open>1 / (1 + exp(-x))\<close> in \<^verbatim>\<open>float32\<close>. For
  \<open>x \<ge> 0\<close> the sum \<^verbatim>\<open>1 + exp(-x)\<close> lies between 1 and 2, where the spacing of \<^verbatim>\<open>float32\<close>
  is \<^verbatim>\<open>2^-23\<close>: the sum is rounded to the nearest multiple of \<^verbatim>\<open>2^-23\<close>, to the even
  one of two nearest. So the result is the same over a whole range of large \<open>x\<close>, and it
  is exactly 1 as soon as \<^verbatim>\<open>exp(-x)\<close> is at most \<^verbatim>\<open>2^-24\<close> (for \<open>x\<close> from about 16.64).
  \<^verbatim>\<open>exp(-x)\<close> above the largest \<^verbatim>\<open>float32\<close> is \<^verbatim>\<open>inf\<close> and the result is then 0 (for
  \<open>x\<close> below about -88.7). The rounding of \<^verbatim>\<open>exp\<close> and of the division, and of the sum
  for negative \<open>x\<close>, change the result by a relative \<^verbatim>\<open>2^-24\<close> and are not modelled.
\<close>

definition round_even :: "real \<Rightarrow> int" where
  "round_even y =
     (if y - of_int \<lfloor>y\<rfloor> < 1 / 2 then \<lfloor>y\<rfloor>
      else if 1 / 2 < y - of_int \<lfloor>y\<rfloor> then \<lfloor>y\<rfloor> + 1
      else if even \<lfloor>y\<rfloor> then \<lfloor>y\<rfloor> else \<lfloor>y\<rfloor> + 1)"

definition sigmoid :: "real \<Rightarrow> real" where
  "sigmoid x =
     (if float32_max < exp (- x) then 0
      else if exp (- x) \<le> 1 then 1 / (1 + of_int (round_even (exp (- x) * 2 ^ 23)) / 2 ^ 23)
      else 1 / (1 + exp (- x)))"

fun map_tensor :: "(real \<Rightarrow> real) \<Rightarrow> tensor \<Rightarrow> tf_error + tensor" where
  "map_tensor f (Scalar x) = Inr (Scalar (f x))"
| "map_tensor f (Vector v) = Inr (Vector (map f v))"
| "map_tensor f (Matrix m) = Inr (Matrix (map (map f) m))"
| "map_tensor f (Stack d t) = Inr (Stack d (map (map (map f)) t))"
| "map_tensor f _ = Inl TypeMismatch"

text \<open>
  Element-wise binary operations (\<^verbatim>\<open>+\<close>, \<^verbatim>\<open>-\<close>, \<^verbatim>\<open>tf.multiply\<close>, \<^verbatim>\<open>tf.maximum\<close>)
  broadcast their operands: a scalar and a vector are read as matrices of one row, the
  sizes of each axis must be equal or one of them 1, and an axis of size 1 is repeated.
\<close>

definition bc_dim :: "nat \<Rightarrow> nat \<Rightarrow> nat option" where
  "bc_dim m n = (if m = n then Some m else if m = 1 then Some n
                 else if n = 1 then Some m else None)"

definition bc_nth :: "'a list \<Rightarrow> nat \<Rightarrow> 'a" where
  "bc_nth xs i = (if length xs = 1 then xs ! 0 else xs ! i)"

definition cols :: "'a list list \<Rightarrow> nat" where
  "cols m = (case m of [] \<Rightarrow> 0 | row # _ \<Rightarrow> length row)"

definition broadcast :: "(real \<Rightarrow> real \<Rightarrow> real) \<Rightarrow> mat \<Rightarrow> mat \<Rightarrow> tf_error + mat" where
  "broadcast f a b =
     (case bc_dim (length a) (length b) of
        None \<Rightarrow> Inl IncompatibleShapes
      | Some r \<Rightarrow>
          if r = 0 then Inr []
          else (case bc_dim (cols a) (cols b) of
                  None \<Rightarrow> Inl IncompatibleShapes
                | Some c \<Rightarrow>
                    Inr (map (\<lambda>i. map (\<lambda>j. f (bc_nth (bc_nth a i) j) (bc_nth (bc_nth b i) j))
                                   [0..<c]) [0..<r])))"

fun as_matrix :: "tensor \<Rightarrow> (nat \<times> mat) option" where
  "as_matrix (Scalar x) = Some (0, [[x]])"
| "as_matrix (Vector v) = Some (1, [v])"
| "as_matrix (Matrix m) = Some (2, m)"
| "as_matrix _ = None"

definition of_matrix :: "nat \<Rightarrow> mat \<Rightarrow> tensor" where
  "of_matrix rank m = (if rank = 0 then Scalar (m ! 0 ! 0)
                       else if rank = 1 then Vector (m ! 0) else Matrix m)"

definition binary_op :: "(real \<Rightarrow> real \<Rightarrow> real) \<Rightarrow> tensor \<Rightarrow> tensor \<Rightarrow> tf_error + tensor" where
  "binary_op f x y =
     (case (as_matrix x, as_matrix y) of
        (Some (rx, a), Some (ry, b)) \<Rightarrow>
          tf_bind (broadcast f a b) (\<lambda>m. Inr (of_matrix (max rx ry) m))
      | _ \<Rightarrow> Inl TypeMismatch)"

text \<open>
  \<^verbatim>\<open>tf.nn.embedding_lookup(table, ids)\<close>: the rows of the table at the IDs. An ID
  outside the table is an error, as it is for TensorFlow's kernel on a CPU (on a GPU the
  kernel returns a zero row instead).
\<close>

fun embedding_lookup :: "tensor \<Rightarrow> tensor \<Rightarrow> tf_error + tensor" where
  "embedding_lookup (Matrix table) (Ids ids) =
     (if list_all (\<lambda>i. 0 \<le> i \<and> i < int (length table)) ids
      then Inr (Matrix (map (\<lambda>i. table ! nat i) ids))
      else Inl IndexOutOfRange)"
| "embedding_lookup _ _ = Inl TypeMismatch"

text \<open>
  \<^verbatim>\<open>tf.nn.l2_normalize(x, 1)\<close>, with the default \<^verbatim>\<open>epsilon=1e-12\<close>: each row is
  multiplied by \<^verbatim>\<open>rsqrt(maximum(reduce_sum(square(x), 1), epsilon))\<close>. In \<^verbatim>\<open>float32\<close> a
  sum of squares above the largest finite value is \<^verbatim>\<open>inf\<close>, and \<^verbatim>\<open>rsqrt(inf)\<close> is 0: the
  row is then multiplied by 0.
\<close>

definition epsilon :: real where
  "epsilon = 1 / 10 ^ 12"

definition square_sum :: "vec \<Rightarrow> real" where
  "square_sum v = sum_list (map (\<lambda>x. x * x) v)"

definition rsqrt_square_sum :: "vec \<Rightarrow> real" where
  "rsqrt_square_sum v =
     (if float32_max < square_sum v then 0 else 1 / sqrt (max (square_sum v) epsilon))"

definition l2_normalize_row :: "vec \<Rightarrow> vec" where
  "l2_normalize_row v = map (\<lambda>x. x * rsqrt_square_sum v) v"

fun l2_normalize :: "tensor \<Rightarrow> tf_error + tensor" where
  "l2_normalize (Matrix m) = Inr (Matrix (map l2_normalize_row m))"
| "l2_normalize _ = Inl TypeMismatch"

text \<open>\<^verbatim>\<open>tf.matmul(a, b)\<close>: the inner dimensions must agree.\<close>

definition matmul_rows :: "mat \<Rightarrow> mat \<Rightarrow> mat" where
  "matmul_rows a b =
     map (\<lambda>row. map (\<lambda>j. sum_list (map (\<lambda>k. row ! k * b ! k ! j) [0..<length b]))
                     [0..<cols b]) a"

fun matmul :: "tensor \<Rightarrow> tensor \<Rightarrow> tf_error + tensor" where
  "matmul (Matrix a) (Matrix b) =
     (if list_all (\<lambda>row. length row = length b) a then Inr (Matrix (matmul_rows a b))
      else Inl IncompatibleShapes)"
| "matmul _ _ = Inl TypeMismatch"

text \<open>
  \<^verbatim>\<open>tf.nn.dropout(x, keep_prob)\<close>: every element is divided by \<^verbatim>\<open>keep_prob\<close> and
  multiplied by 1 where the draw keeps it, by 0 elsewhere.
\<close>

fun dropout :: "(nat \<Rightarrow> nat \<Rightarrow> bool) \<Rightarrow> real \<Rightarrow> tensor \<Rightarrow> tf_error + tensor" where
  "dropout keep p (Matrix m) =
     Inr (Matrix (map (\<lambda>i. map (\<lambda>j. m ! i ! j / p * (if keep i j then 1 else 0))
                              [0..<length (m ! i)]) [0..<length m]))"
| "dropout keep p _ = Inl TypeMismatch"

text \<open>
  \<^verbatim>\<open>tf.nn.l2_loss(t)\<close> computes \<^verbatim>\<open>sum(t ** 2) / 2\<close>; \<^verbatim>\<open>tf.reduce_sum(t)\<close> sums all
  elements.
\<close>

fun elements :: "tensor \<Rightarrow> (real list) option" where
  "elements (Scalar x) = Some [x]"
| "elements (Vector v) = Some v"
| "elements (Matrix m) = Some (concat m)"
| "elements (Stack d t) = Some (concat (concat t))"
| "elements _ = None"

definition l2_loss :: "tensor \<Rightarrow> tf_error + tensor" where
  "l2_loss t = (case elements t of
                  None \<Rightarrow> Inl TypeMismatch
                | Some xs \<Rightarrow> Inr (Scalar (sum_list (map (\<lambda>x. x * x) xs) / 2)))"

definition reduce_sum :: "tensor \<Rightarrow> tf_error + tensor" where
  "reduce_sum t = (case elements t of
                     None \<Rightarrow> Inl TypeMismatch
                   | Some xs \<Rightarrow> Inr (Scalar (sum_list xs)))"

text \<open>\<^verbatim>\<open>tf.reduce_sum(t, 1)\<close> and \<^verbatim>\<open>tf.reduce_sum(t, 1, keep_dims=True)\<close>.\<close>

fun reduce_sum_1 :: "bool \<Rightarrow> tensor \<Rightarrow> tf_error + tensor" where
  "reduce_sum_1 keep_dims (Matrix m) =
     Inr (if keep_dims then Matrix (map (\<lambda>row. [sum_list row]) m)
          else Vector (map sum_list m))"
| "reduce_sum_1 keep_dims (Stack d t) =
     Inr (if keep_dims
          then Stack d (map (\<lambda>vs. [map (\<lambda>j. sum_list (map (\<lambda>v. v ! j) vs)) [0..<d]]) t)
          else Matrix (map (\<lambda>vs. map (\<lambda>j. sum_list (map (\<lambda>v. v ! j) vs)) [0..<d]) t))"
| "reduce_sum_1 keep_dims _ = Inl TypeMismatch"

text \<open>
  \<^verbatim>\<open>tf.nn.top_k(x, k).indices\<close>: for each row, the indices of its \<open>k\<close> largest entries,
  largest first, the lower index first among equal entries. The input must have at least
  \<open>k\<close> columns.
\<close>

definition top_k_row :: "nat \<Rightarrow> real list \<Rightarrow> nat list" where
  "top_k_row k xs = take k (sort_key (\<lambda>i. - (xs ! i)) [0..<length xs])"

fun top_k_indices :: "nat \<Rightarrow> tensor \<Rightarrow> tf_error + tensor" where
  "top_k_indices k (Matrix m) =
     (if list_all (\<lambda>row. k \<le> length row) m then Inr (Indices (map (top_k_row k) m))
      else Inl TooFewColumns)"
| "top_k_indices k _ = Inl TypeMismatch"

text \<open>\<^verbatim>\<open>tf.one_hot(indices, depth)\<close>: a new last axis, 1 at the index and 0 elsewhere.\<close>

definition one_hot_row :: "nat \<Rightarrow> nat \<Rightarrow> real list" where
  "one_hot_row depth i = map (\<lambda>j. if j = i then 1 else 0) [0..<depth]"

fun one_hot :: "nat \<Rightarrow> tensor \<Rightarrow> tf_error + tensor" where
  "one_hot depth (Indices ix) = Inr (Stack depth (map (map (one_hot_row depth)) ix))"
| "one_hot depth _ = Inl TypeMismatch"

subsection \<open>Graph nodes and what a session run computes for them\<close>

datatype node =
    Variable var
  | Placeholder placeholder
  | Const real
  | Embedding_lookup node node
  | L2_normalize node
  | Matmul node node
  | Add node node
  | Sub node node
  | Multiply node node
  | Maximum node node
  | Tanh node
  | Sigmoid node
  | Abs node
  | Dropout dropout_op node real
  | L2_loss node
  | Reduce_sum node
  | Reduce_sum_1 node bool
  | Top_k_indices node nat
  | One_hot node nat

text \<open>
  \<open>eval tag_total s fd dr n\<close> is the value of node \<open>n\<close> in a run of the session whose
  variables hold \<open>s\<close>, with feed dictionary \<open>fd\<close> and random draw \<open>dr\<close>. A node that is
  used twice in the graph (as \<^verbatim>\<open>pos_r_rep\<close> is) has one value in a run: its draw is
  looked up by the operation's name.
\<close>

primrec eval :: "nat \<Rightarrow> variables \<Rightarrow> feed_dict \<Rightarrow> draws \<Rightarrow> node \<Rightarrow> tf_error + tensor" where
  "eval tag_total s fd dr (Variable v) = Inr (var_tensor s v)"
| "eval tag_total s fd dr (Placeholder p) = read_placeholder tag_total fd p"
| "eval tag_total s fd dr (Const c) = Inr (Scalar c)"
| "eval tag_total s fd dr (Embedding_lookup table ids) =
     tf_bind2 (eval tag_total s fd dr table) (eval tag_total s fd dr ids) embedding_lookup"
| "eval tag_total s fd dr (L2_normalize x) = tf_bind (eval tag_total s fd dr x) l2_normalize"
| "eval tag_total s fd dr (Matmul a b) =
     tf_bind2 (eval tag_total s fd dr a) (eval tag_total s fd dr b) matmul"
| "eval tag_total s fd dr (Add a b) =
     tf_bind2 (eval tag_total s fd dr a) (eval tag_total s fd dr b) (binary_op (+))"
| "eval tag_total s fd dr (Sub a b) =
     tf_bind2 (eval tag_total s fd dr a) (eval tag_total s fd dr b) (binary_op (-))"
| "eval tag_total s fd dr (Multiply a b) =
     tf_bind2 (eval tag_total s fd dr a) (eval tag_total s fd dr b) (binary_op (*))"
| "eval tag_total s fd dr (Maximum a b) =
     tf_bind2 (eval tag_total s fd dr a) (eval tag_total s fd dr b) (binary_op max)"
| "eval tag_total s fd dr (Tanh x) = tf_bind (eval tag_total s fd dr x) (map_tensor tanh)"
| "eval tag_total s fd dr (Sigmoid x) = tf_bind (eval tag_total s fd dr x) (map_tensor sigmoid)"
| "eval tag_total s fd dr (Abs x) = tf_bind (eval tag_total s fd dr x) (map_tensor abs)"
| "eval tag_total s fd dr (Dropout op x p) =
     tf_bind (eval tag_total s fd dr x) (dropout (dr op) p)"
| "eval tag_total s fd dr (L2_loss x) = tf_bind (eval tag_total s fd dr x) l2_loss"
| "eval tag_total s fd dr (Reduce_sum x) = tf_bind (eval tag_total s fd dr x) reduce_sum"
| "eval tag_total s fd dr (Reduce_sum_1 x keep_dims) =
     tf_bind (eval tag_total s fd dr x) (reduce_sum_1 keep_dims)"
| "eval tag_total s fd dr (Top_k_indices x k) =
     tf_bind (eval tag_total s fd dr x) (top_k_indices k)"
| "eval tag_total s fd dr (One_hot x depth) =
     tf_bind (eval tag_total s fd dr x) (one_hot depth)"

text \<open>The variables and the placeholders a node is computed from.\<close>

primrec vars_of :: "node \<Rightarrow> var set" where
  "vars_of (Variable v) = {v}"
| "vars_of (Placeholder p) = {}"
| "vars_of (Const c) = {}"
| "vars_of (Embedding_lookup table ids) = vars_of table \<union> vars_of ids"
| "vars_of (L2_normalize x) = vars_of x"
| "vars_of (Matmul a b) = vars_of a \<union> vars_of b"
| "vars_of (Add a b) = vars_of a \<union> vars_of b"
| "vars_of (Sub a b) = vars_of a \<union> vars_of b"
| "vars_of (Multiply a b) = vars_of a \<union> vars_of b"
| "vars_of (Maximum a b) = vars_of a \<union> vars_of b"
| "vars_of (Tanh x) = vars_of x"
| "vars_of (Sigmoid x) = vars_of x"
| "vars_of (Abs x) = vars_of x"
| "vars_of (Dropout op x p) = vars_of x"
| "vars_of (L2_loss x) = vars_of x"
| "vars_of (Reduce_sum x) = vars_of x"
| "vars_of (Reduce_sum_1 x keep_dims) = vars_of x"
| "vars_of (Top_k_indices x k) = vars_of x"
| "vars_of (One_hot x depth) = vars_of x"

primrec placeholders_of :: "node \<Rightarrow> placeholder set" where
  "placeholders_of (Variable v) = {}"
| "placeholders_of (Placeholder p) = {p}"
| "placeholders_of (Const c) = {}"
| "placeholders_of (Embedding_lookup table ids) = placeholders_of table \<union> placeholders_of ids"
| "placeholders_of (L2_normalize x) = placeholders_of x"
| "placeholders_of (Matmul a b) = placeholders_of a \<union> placeholders_of b"
| "placeholders_of (Add a b) = placeholders_of a \<union> placeholders_of b"
| "placeholders_of (Sub a b) = placeholders_of a \<union> placeholders_of b"
| "placeholders_of (Multiply a b) = placeholders_of a \<union> placeholders_of b"
| "placeholders_of (Maximum a b) = placeholders_of a \<union> placeholders_of b"
| "placeholders_of (Tanh x) = placeholders_of x"
| "placeholders_of (Sigmoid x) = placeholders_of x"
| "placeholders_of (Abs x) = placeholders_of x"
| "placeholders_of (Dropout op x p) = placeholders_of x"
| "placeholders_of (L2_loss x) = placeholders_of x"
| "placeholders_of (Reduce_sum x) = placeholders_of x"
| "placeholders_of (Reduce_sum_1 x keep_dims) = placeholders_of x"
| "placeholders_of (Top_k_indices x k) = placeholders_of x"
| "placeholders_of (One_hot x depth) = placeholders_of x"

primrec dropouts_of :: "node \<Rightarrow> dropout_op set" where
  "dropouts_of (Variable v) = {}"
| "dropouts_of (Placeholder p) = {}"
| "dropouts_of (Const c) = {}"
| "dropouts_of (Embedding_lookup table ids) = dropouts_of table \<union> dropouts_of ids"
| "dropouts_of (L2_normalize x) = dropouts_of x"
| "dropouts_of (Matmul a b) = dropouts_of a \<union> dropouts_of b"
| "dropouts_of (Add a b) = dropouts_of a \<union> dropouts_of b"
| "dropouts_of (Sub a b) = dropouts_of a \<union> dropouts_of b"
| "dropouts_of (Multiply a b) = dropouts_of a \<union> dropouts_of b"
| "dropouts_of (Maximum a b) = dropouts_of a \<union> dropouts_of b"
| "dropouts_of (Tanh x) = dropouts_of x"
| "dropouts_of (Sigmoid x) = dropouts_of x"
| "dropouts_of (Abs x) = dropouts_of x"
| "dropouts_of (Dropout op x p) = insert op (dropouts_of x)"
| "dropouts_of (L2_loss x) = dropouts_of x"
| "dropouts_of (Reduce_sum x) = dropouts_of x"
| "dropouts_of (Reduce_sum_1 x keep_dims) = dropouts_of x"
| "dropouts_of (Top_k_indices x k) = dropouts_of x"
| "dropouts_of (One_hot x depth) = dropouts_of x"

text \<open>The nodes a node is built from, itself included.\<close>

primrec subnodes :: "node \<Rightarrow> node set" where
  "subnodes (Variable v) = {Variable v}"
| "subnodes (Placeholder p) = {Placeholder p}"
| "subnodes (Const c) = {Const c}"
| "subnodes (Embedding_lookup table ids) =
     insert (Embedding_lookup table ids) (subnodes table \<union> subnodes ids)"
| "subnodes (L2_normalize x) = insert (L2_normalize x) (subnodes x)"
| "subnodes (Matmul a b) = insert (Matmul a b) (subnodes a \<union> subnodes b)"
| "subnodes (Add a b) = insert (Add a b) (subnodes a \<union> subnodes b)"
| "subnodes (Sub a b) = insert (Sub a b) (subnodes a \<union> subnodes b)"
| "subnodes (Multiply a b) = insert (Multiply a b) (subnodes a \<union> subnodes b)"
| "subnodes (Maximum a b) = insert (Maximum a b) (subnodes a \<union> subnodes b)"
| "subnodes (Tanh x) = insert (Tanh x) (subnodes x)"
| "subnodes (Sigmoid x) = insert (Sigmoid x) (subnodes x)"
| "subnodes (Abs x) = insert (Abs x) (subnodes x)"
| "subnodes (Dropout op x p) = insert (Dropout op x p) (subnodes x)"
| "subnodes (L2_loss x) = insert (L2_loss x) (subnodes x)"
| "subnodes (Reduce_sum x) = insert (Reduce_sum x) (subnodes x)"
| "subnodes (Reduce_sum_1 x keep_dims) = insert (Reduce_sum_1 x keep_dims) (subnodes x)"
| "subnodes (Top_k_indices x k) = insert (Top_k_indices x k) (subnodes x)"
| "subnodes (One_hot x depth) = insert (One_hot x depth) (subnodes x)"

subsection \<open>The graph of the notebook\<close>

text \<open>The placeholders (third code cell).\<close>

definition pos_h :: node where "pos_h = Placeholder Pos_h"
definition pos_t :: node where "pos_t = Placeholder Pos_t"
definition pos_r :: node where "pos_r = Placeholder Pos_r"
definition pos_br :: node where "pos_br = Placeholder Pos_br"
definition neg_h :: node where "neg_h = Placeholder Neg_h"
definition neg_t :: node where "neg_t = Placeholder Neg_t"
definition neg_r :: node where "neg_r = Placeholder Neg_r"
definition neg_br :: node where "neg_br = Placeholder Neg_br"

text \<open>\<^verbatim>\<open>lookup\<close>: the four normalized embeddings, heads from one table, tails from the other.\<close>

definition lookup :: "node \<Rightarrow> node \<Rightarrow> node \<Rightarrow> node \<Rightarrow> node \<times> node \<times> node \<times> node" where
  "lookup pos_head pos_tail neg_head neg_tail =
     (let pos_head_e = L2_normalize (Embedding_lookup (Variable Int_embeddings) pos_head);
          pos_tail_e = L2_normalize (Embedding_lookup (Variable Adv_embeddings) pos_tail);
          neg_head_e = L2_normalize (Embedding_lookup (Variable Int_embeddings) neg_head);
          neg_tail_e = L2_normalize (Embedding_lookup (Variable Adv_embeddings) neg_tail)
      in (pos_head_e, pos_tail_e, neg_head_e, neg_tail_e))"

definition pos_h_e :: node where "pos_h_e = fst (lookup pos_h pos_t neg_h neg_t)"
definition pos_t_e :: node where "pos_t_e = fst (snd (lookup pos_h pos_t neg_h neg_t))"
definition neg_h_e :: node where "neg_h_e = fst (snd (snd (lookup pos_h pos_t neg_h neg_t)))"
definition neg_t_e :: node where "neg_t_e = snd (snd (snd (lookup pos_h pos_t neg_h neg_t)))"

text \<open>
  \<^verbatim>\<open>autoencoder(W, B, x)\<close> returns the hidden layer and the reconstruction layer. Each
  call adds a dropout operation of its own to the graph; its name is the first argument
  here.
\<close>

definition autoencoder :: "dropout_op \<Rightarrow> node \<Rightarrow> node \<times> node" where
  "autoencoder op x =
     (let rep = Dropout op
                  (Tanh (Add (Matmul x (Variable Encoder_w)) (Variable Encoder_b))) keep_prob;
          decode_x = Sigmoid (Add (Matmul rep (Variable Decoder_w)) (Variable Decoder_b))
      in (rep, decode_x))"

definition pos_r_rep :: node where "pos_r_rep = fst (autoencoder Dropout_pos pos_r)"
definition pos_r_dec :: node where "pos_r_dec = snd (autoencoder Dropout_pos pos_r)"
definition neg_r_rep :: node where "neg_r_rep = fst (autoencoder Dropout_neg neg_r)"
definition neg_r_dec :: node where "neg_r_dec = snd (autoencoder Dropout_neg neg_r)"

text \<open>The losses (code cells 5 to 7).\<close>

definition relation_ae_l2_loss :: node where
  "relation_ae_l2_loss =
     Add (Add (Add (L2_loss (Variable Encoder_w)) (L2_loss (Variable Decoder_w)))
              (L2_loss (Variable Encoder_b)))
         (L2_loss (Variable Decoder_b))"

definition relation_loss :: node where
  "relation_loss =
     Add (Reduce_sum (Abs (Multiply (Sub pos_r_dec pos_r) pos_br)))
         (Reduce_sum (Abs (Multiply (Sub neg_r_dec neg_r) neg_br)))"

definition relation_pos_r_loss :: node where
  "relation_pos_r_loss =
     Add (Reduce_sum (Abs (Multiply (Sub pos_r_dec pos_r) pos_br)))
         (Multiply (Const l2_lambda) relation_ae_l2_loss)"

definition pos :: node where
  "pos = Reduce_sum_1 (Abs (Sub (Add pos_h_e pos_r_rep) pos_t_e)) True"

definition neg :: node where
  "neg = Reduce_sum_1 (Abs (Sub (Add neg_h_e neg_r_rep) neg_t_e)) True"

definition trans_loss :: node where
  "trans_loss = Reduce_sum (Maximum (Add (Sub pos neg) (Const gamma)) (Const 0))"

definition loss :: node where
  "loss = Add (Add trans_loss (Multiply (Const alpha) relation_loss))
              (Multiply (Const l2_lambda) relation_ae_l2_loss)"

text \<open>
  The evaluation nodes (code cell 8). \<^verbatim>\<open>tf.nn.top_k\<close> refuses, when the graph is
  built, an input whose static number of columns (here \<^verbatim>\<open>tag_total\<close>) is less than \<open>k\<close>.
\<close>

definition relation_sum :: node where
  "relation_sum = Reduce_sum pos_r"

definition pos_r_minus :: node where
  "pos_r_minus = Sub pos_t_e pos_h_e"

definition pos_r_minus_dec :: node where
  "pos_r_minus_dec =
     Sigmoid (Add (Matmul pos_r_minus (Variable Decoder_w)) (Variable Decoder_b))"

definition hit_node :: "nat \<Rightarrow> nat \<Rightarrow> node" where
  "hit_node tag_total k =
     (let topk_indices = Top_k_indices pos_r_minus_dec k;
          pred = Reduce_sum_1 (One_hot topk_indices tag_total) False
      in Reduce_sum (Multiply pred pos_r))"

definition hits :: "nat \<Rightarrow> tf_error + node list" where
  "hits tag_total =
     (if list_all (\<lambda>k. k \<le> tag_total) hits_k then Inr (map (hit_node tag_total) hits_k)
      else Inl TooFewColumns)"

subsection \<open>Batches of the dataset provider and the feed dictionaries built from them\<close>

text \<open>
  \<^verbatim>\<open>aminer.train.next_batch(batch_size, beta)\<close> returns eight arrays: heads, tails, label
  vectors and weight vectors of the positive edges and of the negative edges. The
  provider is not part of the notebook; a batch is an input here.
\<close>

record train_batch =
  pos_h_batch :: "int list"
  pos_t_batch :: "int list"
  pos_r_batch :: mat
  pos_b_batch :: mat
  neg_h_batch :: "int list"
  neg_t_batch :: "int list"
  neg_r_batch :: mat
  neg_b_batch :: mat

definition train_feed :: "train_batch \<Rightarrow> feed_dict" where
  "train_feed b =
     [Pos_h \<mapsto> Ids (pos_h_batch b), Pos_t \<mapsto> Ids (pos_t_batch b),
      Pos_r \<mapsto> Matrix (pos_r_batch b), Pos_br \<mapsto> Matrix (pos_b_batch b),
      Neg_h \<mapsto> Ids (neg_h_batch b), Neg_t \<mapsto> Ids (neg_t_batch b),
      Neg_r \<mapsto> Matrix (neg_r_batch b), Neg_br \<mapsto> Matrix (neg_b_batch b)]"

definition ids_ok :: "nat \<Rightarrow> nat \<Rightarrow> int list \<Rightarrow> bool" where
  "ids_ok entity_total n ids =
     (length ids = n \<and> list_all (\<lambda>i. 0 \<le> i \<and> i < int entity_total) ids)"

text \<open>
  What the provider promises of a batch of \<open>n\<close> examples: vertex IDs below
  \<^verbatim>\<open>entity_total\<close>, and label and weight vectors of dimension \<^verbatim>\<open>tag_total\<close>.
\<close>

definition train_batch_ok :: "nat \<Rightarrow> nat \<Rightarrow> nat \<Rightarrow> train_batch \<Rightarrow> bool" where
  "train_batch_ok entity_total tag_total n b =
     (ids_ok entity_total n (pos_h_batch b) \<and> ids_ok entity_total n (pos_t_batch b) \<and>
      has_shape n tag_total (pos_r_batch b) \<and> has_shape n tag_total (pos_b_batch b) \<and>
      ids_ok entity_total n (neg_h_batch b) \<and> ids_ok entity_total n (neg_t_batch b) \<and>
      has_shape n tag_total (neg_r_batch b) \<and> has_shape n tag_total (neg_b_batch b))"

text \<open>
  \<^verbatim>\<open>aminer.train.next_autoencoder_batch(batch_size, beta)\<close> returns label vectors and
  their weight vectors; the warm-up loop feeds them to \<^verbatim>\<open>pos_r\<close> and \<^verbatim>\<open>pos_br\<close> only.
\<close>

definition ae_feed :: "mat \<times> mat \<Rightarrow> feed_dict" where
  "ae_feed batch = (case batch of (vecs, bs) \<Rightarrow> [Pos_r \<mapsto> Matrix vecs, Pos_br \<mapsto> Matrix bs])"

definition ae_batch_ok :: "nat \<Rightarrow> nat \<Rightarrow> mat \<times> mat \<Rightarrow> bool" where
  "ae_batch_ok tag_total n batch =
     (case batch of (vecs, bs) \<Rightarrow> has_shape n tag_total vecs \<and> has_shape n tag_total bs)"

text \<open>
  \<^verbatim>\<open>aminer.test.next_test_batch(eval_batch_size)\<close> returns heads, tails and label vectors;
  the evaluation feeds them to \<^verbatim>\<open>pos_h\<close>, \<^verbatim>\<open>pos_t\<close> and \<^verbatim>\<open>pos_r\<close>.
\<close>

record test_batch =
  test_h_batch :: "int list"
  test_t_batch :: "int list"
  test_r_batch :: mat

definition test_feed :: "test_batch \<Rightarrow> feed_dict" where
  "test_feed b =
     [Pos_h \<mapsto> Ids (test_h_batch b), Pos_t \<mapsto> Ids (test_t_batch b),
      Pos_r \<mapsto> Matrix (test_r_batch b)]"

text \<open>A label matrix is multi-hot: every entry is 0 or 1.\<close>

definition multi_hot :: "mat \<Rightarrow> bool" where
  "multi_hot m = list_all (list_all (\<lambda>x. x = 0 \<or> x = 1)) m"

definition test_batch_ok :: "nat \<Rightarrow> nat \<Rightarrow> nat \<Rightarrow> test_batch \<Rightarrow> bool" where
  "test_batch_ok entity_total tag_total n b =
     (ids_ok entity_total n (test_h_batch b) \<and> ids_ok entity_total n (test_t_batch b) \<and>
      has_shape n tag_total (test_r_batch b) \<and> multi_hot (test_r_batch b))"

text \<open>The first \<open>batches\<close> test batches of the provider are well formed.\<close>

definition test_batches_ok :: "nat \<Rightarrow> nat \<Rightarrow> (nat \<Rightarrow> test_batch) \<Rightarrow> nat \<Rightarrow> bool" where
  "test_batches_ok entity_total tag_total next_test_batch batches =
     list_all (\<lambda>i. test_batch_ok entity_total tag_total
                      (length (test_r_batch (next_test_batch i))) (next_test_batch i))
       [0..<batches]"

subsection \<open>Optimizer steps and the warm-up loop\<close>

text \<open>
  \<^verbatim>\<open>tf.train.AdamOptimizer(learning_rate).minimize(objective)\<close> builds a training
  operation. Run in a session, it computes the gradient of the objective for each
  trainable variable and applies an Adam update. \<^verbatim>\<open>minimize\<close> is called without a
  variable list, so it takes all six trainable variables; for a variable from which no
  path of the graph leads to the objective the gradient is \<^verbatim>\<open>None\<close>, and such a variable
  gets no slots and no update. The numeric gradients that automatic differentiation
  returns for the other variables are a parameter \<open>grad\<close> of the model, not computed here.
\<close>

datatype train_op = Adam_minimize real node

definition relation_optimizer :: train_op where
  "relation_optimizer = Adam_minimize learning_rate relation_pos_r_loss"

definition optimizer :: train_op where
  "optimizer = Adam_minimize learning_rate loss"

fun objective :: "train_op \<Rightarrow> node" where
  "objective (Adam_minimize lr n) = n"

type_synonym autodiff = "node \<Rightarrow> variables \<Rightarrow> feed_dict \<Rightarrow> draws \<Rightarrow> variables"

text \<open>The Adam slots of one optimizer, and its default constants.\<close>

record adam_slots =
  slot_m :: variables
  slot_v :: variables
  beta1_power :: real
  beta2_power :: real

definition beta1 :: real where "beta1 = 9 / 10"
definition beta2 :: real where "beta2 = 999 / 1000"
definition adam_epsilon :: real where "adam_epsilon = 1 / 10 ^ 8"

text \<open>
  The update of one tensor with slots \<open>m\<close>, \<open>v\<close> and gradient \<open>g\<close>:
  \<open>m' = \<beta>\<^sub>1 m + (1 - \<beta>\<^sub>1) g\<close>, \<open>v' = \<beta>\<^sub>2 v + (1 - \<beta>\<^sub>2) g\<^sup>2\<close>,
  \<open>x' = x - lr\<^sub>t m' / (sqrt v' + \<epsilon>)\<close>. The result has the shape of \<open>x\<close>.
\<close>

definition adam_vec :: "real \<Rightarrow> vec \<Rightarrow> vec \<Rightarrow> vec \<Rightarrow> vec \<Rightarrow> vec \<times> vec \<times> vec" where
  "adam_vec lr_t x m v g =
     (let m' = map (\<lambda>j. beta1 * m ! j + (1 - beta1) * g ! j) [0..<length x];
          v' = map (\<lambda>j. beta2 * v ! j + (1 - beta2) * (g ! j * g ! j)) [0..<length x];
          x' = map (\<lambda>j. x ! j - lr_t * m' ! j / (sqrt (v' ! j) + adam_epsilon)) [0..<length x]
      in (x', m', v'))"

definition adam_mat :: "real \<Rightarrow> mat \<Rightarrow> mat \<Rightarrow> mat \<Rightarrow> mat \<Rightarrow> mat \<times> mat \<times> mat" where
  "adam_mat lr_t x m v g =
     (let rows = map (\<lambda>i. adam_vec lr_t (x ! i) (m ! i) (v ! i) (g ! i)) [0..<length x]
      in (map fst rows, map (fst \<circ> snd) rows, map (snd \<circ> snd) rows))"

text \<open>
  \<^verbatim>\<open>apply_gradients\<close>: the variables in \<open>touched\<close> (those with a gradient) are updated,
  the others are kept with their slots.
\<close>

definition apply_gradients ::
  "real \<Rightarrow> var set \<Rightarrow> variables \<Rightarrow> variables \<times> adam_slots \<Rightarrow> variables \<times> adam_slots" where
  "apply_gradients lr touched g state =
     (case state of (s, sl) \<Rightarrow>
      let lr_t = lr * sqrt (1 - beta2_power sl) / (1 - beta1_power sl);
          upd_mat = (\<lambda>v sel. if v \<in> touched
                       then adam_mat lr_t (sel s) (sel (slot_m sl)) (sel (slot_v sl)) (sel g)
                       else (sel s, sel (slot_m sl), sel (slot_v sl)));
          upd_vec = (\<lambda>v sel. if v \<in> touched
                       then adam_vec lr_t (sel s) (sel (slot_m sl)) (sel (slot_v sl)) (sel g)
                       else (sel s, sel (slot_m sl), sel (slot_v sl)));
          ie = upd_mat Int_embeddings int_embeddings;
          ae = upd_mat Adv_embeddings adv_embeddings;
          ew = upd_mat Encoder_w encoder_w;
          dw = upd_mat Decoder_w decoder_w;
          eb = upd_vec Encoder_b encoder_b;
          db = upd_vec Decoder_b decoder_b
      in (\<lparr> int_embeddings = fst ie, adv_embeddings = fst ae, encoder_w = fst ew,
             decoder_w = fst dw, encoder_b = fst eb, decoder_b = fst db \<rparr>,
          \<lparr> slot_m = \<lparr> int_embeddings = fst (snd ie), adv_embeddings = fst (snd ae),
                        encoder_w = fst (snd ew), decoder_w = fst (snd dw),
                        encoder_b = fst (snd eb), decoder_b = fst (snd db) \<rparr>,
             slot_v = \<lparr> int_embeddings = snd (snd ie), adv_embeddings = snd (snd ae),
                        encoder_w = snd (snd ew), decoder_w = snd (snd dw),
                        encoder_b = snd (snd eb), decoder_b = snd (snd db) \<rparr>,
             beta1_power = beta1 * beta1_power sl,
             beta2_power = beta2 * beta2_power sl \<rparr>))"

text \<open>The slots when the session is initialized: zero moments, and the powers \<open>\<beta>\<^sub>1\<close>, \<open>\<beta>\<^sub>2\<close>.\<close>

definition initial_slots :: "variables \<Rightarrow> adam_slots" where
  "initial_slots s =
     \<lparr> slot_m = \<lparr> int_embeddings = map (map (\<lambda>x. 0)) (int_embeddings s),
                    adv_embeddings = map (map (\<lambda>x. 0)) (adv_embeddings s),
                    encoder_w = map (map (\<lambda>x. 0)) (encoder_w s),
                    decoder_w = map (map (\<lambda>x. 0)) (decoder_w s),
                    encoder_b = map (\<lambda>x. 0) (encoder_b s),
                    decoder_b = map (\<lambda>x. 0) (decoder_b s) \<rparr>,
       slot_v = \<lparr> int_embeddings = map (map (\<lambda>x. 0)) (int_embeddings s),
                    adv_embeddings = map (map (\<lambda>x. 0)) (adv_embeddings s),
                    encoder_w = map (map (\<lambda>x. 0)) (encoder_w s),
                    decoder_w = map (map (\<lambda>x. 0)) (decoder_w s),
                    encoder_b = map (\<lambda>x. 0) (encoder_b s),
                    decoder_b = map (\<lambda>x. 0) (decoder_b s) \<rparr>,
       beta1_power = beta1, beta2_power = beta2 \<rparr>"

text \<open>
  \<^verbatim>\<open>sess.run([train_op, loss_node], feed_dict)\<close>: the value of the loss node on the
  variables before the update, and the updated variables and slots. A run that fails
  changes nothing and raises.
\<close>

definition run_train ::
  "nat \<Rightarrow> autodiff \<Rightarrow> train_op \<Rightarrow> node \<Rightarrow> variables \<times> adam_slots \<Rightarrow> feed_dict \<Rightarrow> draws
   \<Rightarrow> tf_error + ((variables \<times> adam_slots) \<times> real)" where
  "run_train tag_total grad train loss_node state fd dr =
     (case train of Adam_minimize lr obj \<Rightarrow>
        (case eval tag_total (fst state) fd dr obj of
           Inl e \<Rightarrow> Inl e
         | Inr _ \<Rightarrow>
             (case eval tag_total (fst state) fd dr loss_node of
                Inl e \<Rightarrow> Inl e
              | Inr (Scalar cur_loss) \<Rightarrow>
                  Inr (apply_gradients lr (vars_of obj) (grad obj (fst state) fd dr) state,
                       cur_loss)
              | Inr _ \<Rightarrow> Inl TypeMismatch)))"

text \<open>A Python \<^verbatim>\<open>for\<close> loop over a list, which an exception leaves.\<close>

fun for_each :: "'a list \<Rightarrow> ('a \<Rightarrow> 'st \<Rightarrow> 'e + 'st) \<Rightarrow> 'st \<Rightarrow> 'e + 'st" where
  "for_each [] body st = Inr st"
| "for_each (x # xs) body st =
     (case body x st of Inl e \<Rightarrow> Inl e | Inr st' \<Rightarrow> for_each xs body st')"

text \<open>
  The warm-up loop. \<open>next_autoencoder_batch epoch i\<close> is the batch the provider returns
  in pass \<open>i\<close> of epoch \<open>epoch\<close>, \<open>draw epoch i\<close> the random draw of that run. The state
  carries the variables with the slots of \<^verbatim>\<open>relation_optimizer\<close>, and the printed sums of
  losses, one for each epoch.
\<close>

definition total_batch :: "nat \<Rightarrow> nat" where
  "total_batch num_examples = num_examples div batch_size"

definition warm_up_step ::
  "nat \<Rightarrow> autodiff \<Rightarrow> (nat \<Rightarrow> nat \<Rightarrow> mat \<times> mat) \<Rightarrow> (nat \<Rightarrow> nat \<Rightarrow> draws) \<Rightarrow> nat \<Rightarrow> nat
   \<Rightarrow> (variables \<times> adam_slots) \<times> real \<Rightarrow> tf_error + ((variables \<times> adam_slots) \<times> real)" where
  "warm_up_step tag_total grad next_autoencoder_batch draw epoch i acc =
     (case acc of (state, sum_loss) \<Rightarrow>
        (case run_train tag_total grad relation_optimizer relation_pos_r_loss state
                (ae_feed (next_autoencoder_batch epoch i)) (draw epoch i) of
           Inl e \<Rightarrow> Inl e
         | Inr (state', cur_loss) \<Rightarrow> Inr (state', sum_loss + cur_loss)))"

definition warm_up_epoch ::
  "nat \<Rightarrow> autodiff \<Rightarrow> (nat \<Rightarrow> nat \<Rightarrow> mat \<times> mat) \<Rightarrow> (nat \<Rightarrow> nat \<Rightarrow> draws) \<Rightarrow> nat \<Rightarrow> nat
   \<Rightarrow> (variables \<times> adam_slots) \<times> real list
   \<Rightarrow> tf_error + ((variables \<times> adam_slots) \<times> real list)" where
  "warm_up_epoch tag_total grad next_autoencoder_batch draw num_examples epoch acc =
     (case acc of (state, printed) \<Rightarrow>
        (case for_each [0..<total_batch num_examples]
                (warm_up_step tag_total grad next_autoencoder_batch draw epoch) (state, 0) of
           Inl e \<Rightarrow> Inl e
         | Inr (state', sum_loss) \<Rightarrow> Inr (state', printed @ [sum_loss])))"

definition warm_up ::
  "nat \<Rightarrow> autodiff \<Rightarrow> (nat \<Rightarrow> nat \<Rightarrow> mat \<times> mat) \<Rightarrow> (nat \<Rightarrow> nat \<Rightarrow> draws) \<Rightarrow> nat
   \<Rightarrow> variables \<times> adam_slots \<Rightarrow> tf_error + ((variables \<times> adam_slots) \<times> real list)" where
  "warm_up tag_total grad next_autoencoder_batch draw num_examples state =
     for_each [0..<warm_up_epochs]
       (warm_up_epoch tag_total grad next_autoencoder_batch draw num_examples) (state, [])"

subsection \<open>The evaluation block\<close>

text \<open>
  \<^verbatim>\<open>sess.run([hits, relation_sum], feed_dict)\<close> returns the values of the hit nodes, a
  list of scalars, and of \<^verbatim>\<open>relation_sum\<close>.
\<close>

definition fetch_scalar ::
  "nat \<Rightarrow> variables \<Rightarrow> feed_dict \<Rightarrow> draws \<Rightarrow> node \<Rightarrow> tf_error + real" where
  "fetch_scalar tag_total s fd dr n =
     (case eval tag_total s fd dr n of
        Inl e \<Rightarrow> Inl e
      | Inr (Scalar x) \<Rightarrow> Inr x
      | Inr _ \<Rightarrow> Inl TypeMismatch)"

fun fetch_all ::
  "nat \<Rightarrow> variables \<Rightarrow> feed_dict \<Rightarrow> draws \<Rightarrow> node list \<Rightarrow> tf_error + real list" where
  "fetch_all tag_total s fd dr [] = Inr []"
| "fetch_all tag_total s fd dr (n # ns) =
     (case fetch_scalar tag_total s fd dr n of
        Inl e \<Rightarrow> Inl e
      | Inr x \<Rightarrow>
          (case fetch_all tag_total s fd dr ns of
             Inl e \<Rightarrow> Inl e
           | Inr xs \<Rightarrow> Inr (x # xs)))"

definition run_eval ::
  "nat \<Rightarrow> variables \<Rightarrow> node list \<Rightarrow> feed_dict \<Rightarrow> draws \<Rightarrow> tf_error + (real list \<times> real)" where
  "run_eval tag_total s hit_nodes fd dr =
     (case fetch_all tag_total s fd dr hit_nodes of
        Inl e \<Rightarrow> Inl e
      | Inr cur_hits \<Rightarrow>
          (case fetch_scalar tag_total s fd dr relation_sum of
             Inl e \<Rightarrow> Inl e
           | Inr cur_sum \<Rightarrow> Inr (cur_hits, cur_sum)))"

text \<open>
  One pass of the evaluation loop: the hits of the batch are added to \<^verbatim>\<open>hits_\<close>
  position by position (\<^verbatim>\<open>zip\<close> stops at the shorter list), the number of true labels
  to \<^verbatim>\<open>all_count\<close>.
\<close>

definition eval_step ::
  "nat \<Rightarrow> variables \<Rightarrow> node list \<Rightarrow> (nat \<Rightarrow> test_batch) \<Rightarrow> (nat \<Rightarrow> draws) \<Rightarrow> nat
   \<Rightarrow> real list \<times> real \<Rightarrow> tf_error + (real list \<times> real)" where
  "eval_step tag_total s hit_nodes next_test_batch draw i acc =
     (case acc of (hits_acc, all_count) \<Rightarrow>
        (case run_eval tag_total s hit_nodes (test_feed (next_test_batch i)) (draw i) of
           Inl e \<Rightarrow> Inl e
         | Inr (cur_hits, cur_sum) \<Rightarrow> Inr (map2 (+) hits_acc cur_hits, all_count + cur_sum)))"

definition test_total_batch :: "nat \<Rightarrow> nat" where
  "test_total_batch num_examples = num_examples div eval_batch_size"

text \<open>
  The division \<^verbatim>\<open>hit/all_count\<close>. Before the first batch \<^verbatim>\<open>hits_\<close> holds Python
  integers and \<^verbatim>\<open>all_count\<close> is the Python float \<^verbatim>\<open>0.0\<close>: dividing by it raises
  \<^verbatim>\<open>ZeroDivisionError\<close>. After a batch both hold NumPy scalars, whose division by zero
  raises nothing and gives \<^verbatim>\<open>nan\<close> or an infinity.
\<close>

datatype py_error = ZeroDivisionError | TensorFlowError tf_error

datatype quotient = Ratio real | NaN | PosInf | NegInf

definition np_divide :: "real \<Rightarrow> real \<Rightarrow> quotient" where
  "np_divide x y =
     (if y \<noteq> 0 then Ratio (x / y) else if x = 0 then NaN else if 0 < x then PosInf else NegInf)"

definition divide_hits :: "bool \<Rightarrow> real list \<Rightarrow> real \<Rightarrow> py_error + quotient list" where
  "divide_hits numpy hits_acc all_count =
     (if numpy then Inr (map (\<lambda>hit. np_divide hit all_count) hits_acc)
      else (case hits_acc of [] \<Rightarrow> Inr [] | hit # rest \<Rightarrow> Inl ZeroDivisionError))"

text \<open>
  The evaluation block of the training loop, for the variables \<open>s\<close>: \<open>next_test_batch i\<close>
  is the \<open>i\<close>-th batch the provider returns, \<open>draw i\<close> the random draw of the \<open>i\<close>-th run.
  The result is the list \<^verbatim>\<open>r\<close> that is printed, one quotient for each \<open>k\<close>.
\<close>

definition evaluate ::
  "nat \<Rightarrow> variables \<Rightarrow> (nat \<Rightarrow> test_batch) \<Rightarrow> (nat \<Rightarrow> draws) \<Rightarrow> nat
   \<Rightarrow> py_error + quotient list" where
  "evaluate tag_total s next_test_batch draw num_examples =
     (case hits tag_total of
        Inl e \<Rightarrow> Inl (TensorFlowError e)
      | Inr hit_nodes \<Rightarrow>
          (case for_each [0..<test_total_batch num_examples]
                  (eval_step tag_total s hit_nodes next_test_batch draw)
                  (replicate (length hits_k) 0, 0) of
             Inl e \<Rightarrow> Inl (TensorFlowError e)
           | Inr (hits_acc, all_count) \<Rightarrow>
               divide_hits (0 < test_total_batch num_examples) hits_acc all_count))"

subsection \<open>The joint training loop and the whole run\<close>

text \<open>
  One pass of the joint loop runs \<^verbatim>\<open>optimizer\<close> on a batch of \<^verbatim>\<open>next_batch\<close> and adds
  the loss to the epoch's sum. After the passes of an epoch the sum is printed, and in
  every \<^verbatim>\<open>display_step\<close>-th epoch the evaluation block runs on the current variables.
  \<open>next_batch epoch i\<close> and \<open>next_test_batch epoch i\<close> are the batches the provider returns
  in that epoch, \<open>draw\<close> and \<open>test_draw\<close> the random draws of the runs. The state carries
  the variables with the slots of \<^verbatim>\<open>optimizer\<close> and what has been printed: for each
  epoch the sum of losses and, when the evaluation ran, its three quotients.
\<close>

definition joint_step ::
  "nat \<Rightarrow> autodiff \<Rightarrow> (nat \<Rightarrow> nat \<Rightarrow> train_batch) \<Rightarrow> (nat \<Rightarrow> nat \<Rightarrow> draws) \<Rightarrow> nat \<Rightarrow> nat
   \<Rightarrow> (variables \<times> adam_slots) \<times> real \<Rightarrow> tf_error + ((variables \<times> adam_slots) \<times> real)" where
  "joint_step tag_total grad next_batch draw epoch i acc =
     (case acc of (state, sum_loss) \<Rightarrow>
        (case run_train tag_total grad optimizer loss state
                (train_feed (next_batch epoch i)) (draw epoch i) of
           Inl e \<Rightarrow> Inl e
         | Inr (state', cur_loss) \<Rightarrow> Inr (state', sum_loss + cur_loss)))"

definition joint_epoch ::
  "nat \<Rightarrow> autodiff \<Rightarrow> (nat \<Rightarrow> nat \<Rightarrow> train_batch) \<Rightarrow> (nat \<Rightarrow> nat \<Rightarrow> draws)
   \<Rightarrow> (nat \<Rightarrow> nat \<Rightarrow> test_batch) \<Rightarrow> (nat \<Rightarrow> nat \<Rightarrow> draws) \<Rightarrow> nat \<Rightarrow> nat \<Rightarrow> nat
   \<Rightarrow> (variables \<times> adam_slots) \<times> (real \<times> quotient list option) list
   \<Rightarrow> py_error + ((variables \<times> adam_slots) \<times> (real \<times> quotient list option) list)" where
  "joint_epoch tag_total grad next_batch draw next_test_batch test_draw
     train_examples test_examples epoch acc =
     (case acc of (state, printed) \<Rightarrow>
        (case for_each [0..<total_batch train_examples]
                (joint_step tag_total grad next_batch draw epoch) (state, 0) of
           Inl e \<Rightarrow> Inl (TensorFlowError e)
         | Inr (state', sum_loss) \<Rightarrow>
             if epoch mod display_step = 0
             then (case evaluate tag_total (fst state') (next_test_batch epoch)
                          (test_draw epoch) test_examples of
                     Inl e \<Rightarrow> Inl e
                   | Inr r \<Rightarrow> Inr (state', printed @ [(sum_loss, Some r)]))
             else Inr (state', printed @ [(sum_loss, None)])))"

definition train ::
  "nat \<Rightarrow> autodiff \<Rightarrow> (nat \<Rightarrow> nat \<Rightarrow> train_batch) \<Rightarrow> (nat \<Rightarrow> nat \<Rightarrow> draws)
   \<Rightarrow> (nat \<Rightarrow> nat \<Rightarrow> test_batch) \<Rightarrow> (nat \<Rightarrow> nat \<Rightarrow> draws) \<Rightarrow> nat \<Rightarrow> nat
   \<Rightarrow> variables \<times> adam_slots
   \<Rightarrow> py_error + ((variables \<times> adam_slots) \<times> (real \<times> quotient list option) list)" where
  "train tag_total grad next_batch draw next_test_batch test_draw
     train_examples test_examples state =
     for_each [0..<epochs]
       (joint_epoch tag_total grad next_batch draw next_test_batch test_draw
          train_examples test_examples) (state, [])"

text \<open>
  The whole notebook, from the initial values \<open>s\<close> of the variables: the graph is built
  (which fails when \<^verbatim>\<open>top_k\<close> refuses \<^verbatim>\<open>tag_total\<close>), the warm-up loop runs, then the
  joint loop. The result is the final variables and what the two loops printed.
\<close>

definition run_notebook ::
  "nat \<Rightarrow> autodiff \<Rightarrow> (nat \<Rightarrow> nat \<Rightarrow> mat \<times> mat) \<Rightarrow> (nat \<Rightarrow> nat \<Rightarrow> draws)
   \<Rightarrow> (nat \<Rightarrow> nat \<Rightarrow> train_batch) \<Rightarrow> (nat \<Rightarrow> nat \<Rightarrow> draws)
   \<Rightarrow> (nat \<Rightarrow> nat \<Rightarrow> test_batch) \<Rightarrow> (nat \<Rightarrow> nat \<Rightarrow> draws) \<Rightarrow> nat \<Rightarrow> nat \<Rightarrow> variables
   \<Rightarrow> py_error + (variables \<times> real list \<times> (real \<times> quotient list option) list)" where
  "run_notebook tag_total grad next_autoencoder_batch warm_up_draw next_batch draw
     next_test_batch test_draw train_examples test_examples s =
     (case hits tag_total of
        Inl e \<Rightarrow> Inl (TensorFlowError e)
      | Inr hit_nodes \<Rightarrow>
          (case warm_up tag_total grad next_autoencoder_batch warm_up_draw train_examples
                  (s, initial_slots s) of
             Inl e \<Rightarrow> Inl (TensorFlowError e)
           | Inr ((s', relation_slots), warm_up_printed) \<Rightarrow>
               (case train tag_total grad next_batch draw next_test_batch test_draw
                       train_examples test_examples (s', initial_slots s) of
                  Inl e \<Rightarrow> Inl e
                | Inr ((s'', joint_slots), printed) \<Rightarrow> Inr (s'', warm_up_printed, printed))))"

subsection \<open>The formulas of the specification\<close>

text \<open>
  The specification states the losses, the normalization, the prediction and the ranking
  as formulas. They are written here from its words, with sums over index ranges and
  without the tensor operations defined above, to be compared with what the graph
  computes. The scalar function \<open>sigmoid\<close> is the one of \<^verbatim>\<open>float32\<close>; how far it is from
  the logistic function is part of what is proved of the evaluation.
\<close>

text \<open>The matrix with \<open>r\<close> rows and \<open>c\<close> columns whose entry at \<open>(i, j)\<close> is \<open>f i j\<close>.\<close>

definition mat_of :: "nat \<Rightarrow> nat \<Rightarrow> (nat \<Rightarrow> nat \<Rightarrow> real) \<Rightarrow> mat" where
  "mat_of r c f = map (\<lambda>i. map (f i) [0..<c]) [0..<r]"

text \<open>
  Regularizer: \<open>L_reg = ||W_enc||\<^sup>2 + ||W_dec||\<^sup>2 + ||b_enc||\<^sup>2 + ||b_dec||\<^sup>2\<close>, the sum of the
  squared Frobenius and L2 norms of the four parameter tensors.
\<close>

definition frobenius_sq :: "mat \<Rightarrow> real" where
  "frobenius_sq m = (\<Sum>i<length m. \<Sum>j<length (m ! i). (m ! i ! j)\<^sup>2)"

definition norm_sq :: "vec \<Rightarrow> real" where
  "norm_sq v = (\<Sum>j<length v. (v ! j)\<^sup>2)"

definition L_reg :: "variables \<Rightarrow> real" where
  "L_reg s = frobenius_sq (encoder_w s) + frobenius_sq (decoder_w s)
             + norm_sq (encoder_b s) + norm_sq (decoder_b s)"

text \<open>
  Encode: \<open>rep = tanh(x \<cdot> W_enc + b_enc)\<close>, followed by a dropout mask with
  keep-probability \<^verbatim>\<open>keep_prob\<close>. Decode: \<open>s_hat = sigmoid(rep \<cdot> W_dec + b_dec)\<close>.
\<close>

definition encode :: "variables \<Rightarrow> (nat \<Rightarrow> nat \<Rightarrow> bool) \<Rightarrow> mat \<Rightarrow> nat \<Rightarrow> nat \<Rightarrow> real" where
  "encode s keep x i j =
     tanh ((\<Sum>k<length (encoder_w s). x ! i ! k * encoder_w s ! k ! j) + encoder_b s ! j)
       / keep_prob * (if keep i j then 1 else 0)"

definition decode :: "variables \<Rightarrow> (nat \<Rightarrow> nat \<Rightarrow> real) \<Rightarrow> nat \<Rightarrow> nat \<Rightarrow> real" where
  "decode s rep i j =
     sigmoid ((\<Sum>k<length (decoder_w s). rep i k * decoder_w s ! k ! j) + decoder_b s ! j)"

text \<open>
  Weighted reconstruction loss: \<open>L_ae = \<Sum> |(s_hat - s) \<odot> w|\<close>, over the \<open>n\<close> rows of a
  batch and the \<open>tag_total\<close> labels.
\<close>

definition L_ae :: "nat \<Rightarrow> nat \<Rightarrow> (nat \<Rightarrow> nat \<Rightarrow> real) \<Rightarrow> mat \<Rightarrow> mat \<Rightarrow> real" where
  "L_ae n tag_total s_hat s w =
     (\<Sum>i<n. \<Sum>j<tag_total. \<bar>(s_hat i j - s ! i ! j) * w ! i ! j\<bar>)"

text \<open>
  The L2-normalized embedding of the \<open>i\<close>-th vertex of a batch, by component: the row
  \<open>x\<close> of the vertex divided by its L2 norm, \<^verbatim>\<open>x / sqrt(max(sum(x^2), 1e-12))\<close>. The
  maximum is the sum of squares itself unless that is below \<^verbatim>\<open>1e-12\<close>.
\<close>

definition normalized :: "mat \<Rightarrow> int list \<Rightarrow> nat \<Rightarrow> nat \<Rightarrow> real" where
  "normalized table ids i j =
     table ! nat (ids ! i) ! j / sqrt (max (norm_sq (table ! nat (ids ! i))) (1 / 10 ^ 12))"

text \<open>
  Distance: \<open>d(u,v,l) = \<Sum> |u + l - v'|\<close>, for the \<open>i\<close>-th edge of a batch. Hinge loss:
  \<open>L_trans = \<Sum> max(0, \<gamma> + d(pos) - d(neg))\<close> over the batch.
\<close>

definition distance ::
  "(nat \<Rightarrow> nat \<Rightarrow> real) \<Rightarrow> (nat \<Rightarrow> nat \<Rightarrow> real) \<Rightarrow> (nat \<Rightarrow> nat \<Rightarrow> real) \<Rightarrow> nat \<Rightarrow> real" where
  "distance u v l i = (\<Sum>j<rep_size. \<bar>u i j + l i j - v i j\<bar>)"

definition L_trans :: "real \<Rightarrow> nat \<Rightarrow> (nat \<Rightarrow> real) \<Rightarrow> (nat \<Rightarrow> real) \<Rightarrow> real" where
  "L_trans margin n d_pos d_neg = (\<Sum>i<n. max 0 (margin + d_pos i - d_neg i))"

text \<open>The L2 norm of a vector, as the specification's unit-norm property reads it.\<close>

definition l2_norm :: "vec \<Rightarrow> real" where
  "l2_norm v = sqrt (norm_sq v)"

text \<open>
  The vertex IDs of a batch are rows of the table, and the sum of squares of each such row
  is at least \<^verbatim>\<open>1e-12\<close>, the threshold of \<^verbatim>\<open>tf.nn.l2_normalize\<close>, and at most
  \<^verbatim>\<open>1e38\<close>, which is below the largest \<^verbatim>\<open>float32\<close> (about \<^verbatim>\<open>3.4e38\<close>).
\<close>

definition rows_in_range :: "mat \<Rightarrow> int list \<Rightarrow> bool" where
  "rows_in_range table ids =
     list_all (\<lambda>i. 0 \<le> i \<and> i < int (length table) \<and>
                    1 / 10 ^ 12 \<le> norm_sq (table ! nat i) \<and>
                    norm_sq (table ! nat i) \<le> 10 ^ 38) ids"

text \<open>
  The magnitudes at which \<^verbatim>\<open>float32\<close> does not overflow: a table whose rows have sums of
  squares up to \<^verbatim>\<open>1e38\<close>, and an affine layer \<open>x \<cdot> W + b\<close> on \<open>n\<close> rows whose sums stay
  below \<^verbatim>\<open>1e38\<close> in whatever order the products are added.
\<close>

definition finite_rows :: "mat \<Rightarrow> bool" where
  "finite_rows table = list_all (\<lambda>row. norm_sq row \<le> 10 ^ 38) table"








definition batch_true :: "test_batch \<Rightarrow> nat" where
  "batch_true b = (\<Sum>i<length (test_r_batch b). length (filter (\<lambda>x. x = 1) (test_r_batch b ! i)))"


subsection \<open>The values of the graph's nodes, by entry\<close>

text \<open>
  The entries of the values that the nodes of the graph take, written with the
  operations of the graph: the lemmas on the nodes below are stated with them.
\<close>

text \<open>The row that \<^verbatim>\<open>lookup\<close> returns for the \<open>i\<close>-th vertex of a batch, by component.\<close>

definition embedding :: "mat \<Rightarrow> int list \<Rightarrow> nat \<Rightarrow> nat \<Rightarrow> real" where
  "embedding table ids i j = l2_normalize_row (table ! nat (ids ! i)) ! j"

text \<open>The quantities of a training batch, in a run with draw \<open>dr\<close> on variables \<open>s\<close>.\<close>

definition pos_distance :: "variables \<Rightarrow> draws \<Rightarrow> train_batch \<Rightarrow> nat \<Rightarrow> real" where
  "pos_distance s dr b =
     distance (embedding (int_embeddings s) (pos_h_batch b))
              (embedding (adv_embeddings s) (pos_t_batch b))
              (encode s (dr Dropout_pos) (pos_r_batch b))"

definition neg_distance :: "variables \<Rightarrow> draws \<Rightarrow> train_batch \<Rightarrow> nat \<Rightarrow> real" where
  "neg_distance s dr b =
     distance (embedding (int_embeddings s) (neg_h_batch b))
              (embedding (adv_embeddings s) (neg_t_batch b))
              (encode s (dr Dropout_neg) (neg_r_batch b))"

definition pos_L_ae :: "nat \<Rightarrow> nat \<Rightarrow> variables \<Rightarrow> draws \<Rightarrow> mat \<Rightarrow> mat \<Rightarrow> real" where
  "pos_L_ae n tag_total s dr r w =
     L_ae n tag_total (decode s (encode s (dr Dropout_pos) r)) r w"

definition neg_L_ae :: "nat \<Rightarrow> nat \<Rightarrow> variables \<Rightarrow> draws \<Rightarrow> mat \<Rightarrow> mat \<Rightarrow> real" where
  "neg_L_ae n tag_total s dr r w =
     L_ae n tag_total (decode s (encode s (dr Dropout_neg) r)) r w"

text \<open>
  The entry of \<^verbatim>\<open>pos_r_minus_dec\<close> for the \<open>i\<close>-th test edge and label \<open>j\<close>, the number of
  true labels among the indices that \<^verbatim>\<open>tf.nn.top_k\<close> returns for a row of scores, and
  the quotient of the accumulated counts.
\<close>

definition predicted :: "variables \<Rightarrow> test_batch \<Rightarrow> nat \<Rightarrow> nat \<Rightarrow> real" where
  "predicted s b i j =
     sigmoid ((\<Sum>m<length (decoder_w s).
                 (embedding (adv_embeddings s) (test_t_batch b) i m
                  - embedding (int_embeddings s) (test_h_batch b) i m) * decoder_w s ! m ! j)
              + decoder_b s ! j)"

definition true_in_top :: "nat \<Rightarrow> real list \<Rightarrow> real list \<Rightarrow> nat" where
  "true_in_top k scores labels = length (filter (\<lambda>j. labels ! j = 1) (top_k_row k scores))"

definition batch_hits :: "nat \<Rightarrow> nat \<Rightarrow> variables \<Rightarrow> test_batch \<Rightarrow> nat" where
  "batch_hits tag_total k s b =
     (\<Sum>i<length (test_r_batch b).
        true_in_top k (map (predicted s b i) [0..<tag_total]) (test_r_batch b ! i))"

definition Hits_at ::
  "nat \<Rightarrow> nat \<Rightarrow> variables \<Rightarrow> (nat \<Rightarrow> test_batch) \<Rightarrow> nat \<Rightarrow> real" where
  "Hits_at tag_total k s next_test_batch batches =
     real (\<Sum>i<batches. batch_hits tag_total k s (next_test_batch i))
     / real (\<Sum>i<batches. batch_true (next_test_batch i))"

subsection \<open>Concrete sessions\<close>

text \<open>
  Variables of a dataset with one vertex and ten labels: every entry of the embedding
  tables and of the encoder weight is 1, the other parameters are 0.
\<close>

definition ones_vars :: variables where
  "ones_vars =
     \<lparr> int_embeddings = [replicate 64 1], adv_embeddings = [replicate 64 1],
       encoder_w = replicate 10 (replicate 64 1), decoder_w = replicate 64 (replicate 10 0),
       encoder_b = replicate 64 0, decoder_b = replicate 10 0 \<rparr>"

text \<open>The same variables, but with a head-role table whose only row is zero.\<close>

definition zero_head_vars :: variables where
  "zero_head_vars = ones_vars\<lparr>int_embeddings := [replicate 64 0]\<rparr>"

text \<open>The same variables, but with a head-role table whose only row is 64 times \<^verbatim>\<open>1e20\<close>.\<close>

definition huge_head_vars :: variables where
  "huge_head_vars = ones_vars\<lparr>int_embeddings := [replicate 64 (10 ^ 20)]\<rparr>"

text \<open>
  A training batch of one positive and one negative edge on the only vertex, with label 0
  on the positive edge and label 1 on the negative edge; the weight is \<^verbatim>\<open>beta\<close> at the
  present label.
\<close>

definition one_edge_batch :: train_batch where
  "one_edge_batch =
     \<lparr> pos_h_batch = [0], pos_t_batch = [0],
       pos_r_batch = [[1, 0, 0, 0, 0, 0, 0, 0, 0, 0]],
       pos_b_batch = [[50, 1, 1, 1, 1, 1, 1, 1, 1, 1]],
       neg_h_batch = [0], neg_t_batch = [0],
       neg_r_batch = [[0, 1, 0, 0, 0, 0, 0, 0, 0, 0]],
       neg_b_batch = [[1, 50, 1, 1, 1, 1, 1, 1, 1, 1]] \<rparr>"



text \<open>A draw that keeps every element.\<close>

definition keep_all :: draws where
  "keep_all = (\<lambda>op i j. True)"

text \<open>
  A provider that returns the same one-row warm-up batch in every pass, a draw function
  that keeps everything in every run, and a gradient that is 1 in every component.
\<close>

definition same_ae_batch :: "nat \<Rightarrow> nat \<Rightarrow> mat \<times> mat" where
  "same_ae_batch epoch i = (pos_r_batch one_edge_batch, pos_b_batch one_edge_batch)"

definition keep_all_runs :: "nat \<Rightarrow> nat \<Rightarrow> draws" where
  "keep_all_runs epoch i = keep_all"

definition ones_grad :: autodiff where
  "ones_grad obj s fd dr =
     \<lparr> int_embeddings = map (map (\<lambda>x. 1)) (int_embeddings s),
       adv_embeddings = map (map (\<lambda>x. 1)) (adv_embeddings s),
       encoder_w = map (map (\<lambda>x. 1)) (encoder_w s),
       decoder_w = map (map (\<lambda>x. 1)) (decoder_w s),
       encoder_b = map (\<lambda>x. 1) (encoder_b s),
       decoder_b = map (\<lambda>x. 1) (decoder_b s) \<rparr>"

text \<open>
  A test batch of one edge on the only vertex with label 0, the same edge without any
  label, and providers that return one of them at every call.
\<close>

definition one_test_batch :: test_batch where
  "one_test_batch =
     \<lparr> test_h_batch = [0], test_t_batch = [0],
       test_r_batch = [[1, 0, 0, 0, 0, 0, 0, 0, 0, 0]] \<rparr>"

definition no_label_batch :: test_batch where
  "no_label_batch =
     \<lparr> test_h_batch = [0], test_t_batch = [0],
       test_r_batch = [[0, 0, 0, 0, 0, 0, 0, 0, 0, 0]] \<rparr>"

definition same_test_batch :: "nat \<Rightarrow> test_batch" where
  "same_test_batch i = one_test_batch"

definition same_no_label_batch :: "nat \<Rightarrow> test_batch" where
  "same_no_label_batch i = no_label_batch"




definition keep_all_eval :: "nat \<Rightarrow> draws" where
  "keep_all_eval i = keep_all"

definition drop_all_eval :: "nat \<Rightarrow> draws" where
  "drop_all_eval i = (\<lambda>op i j. False)"

section \<open>Verification\<close>

subsection \<open>Sums over lists and over index ranges\<close>

lemma sum_list_nth: "sum_list xs = (\<Sum>i<length xs. xs ! i)" for xs :: "real list"
  by (simp add: sum_list_sum_nth atLeast0LessThan)

lemma sum_list_map_nth: "sum_list (map f xs) = (\<Sum>i<length xs. f (xs ! i))"
  for f :: "'a \<Rightarrow> real"
  using sum_list_nth [of "map f xs"] by simp

lemma square_sum_norm_sq: "sum_list (map (\<lambda>x. x * x) v) = norm_sq v"
  by (simp add: sum_list_map_nth norm_sq_def power2_eq_square)

lemma square_sum_concat: "sum_list (map (\<lambda>x. x * x) (concat m)) = frobenius_sq m"
proof -
  have "sum_list (map (\<lambda>x. x * x) (concat m))
        = sum_list (map (\<lambda>row. sum_list (map (\<lambda>x. x * x) row)) m)"
    by (induction m) simp_all
  also have "\<dots> = frobenius_sq m"
    by (simp add: sum_list_map_nth frobenius_sq_def power2_eq_square)
  finally show ?thesis .
qed

subsection \<open>The sigmoid of \<^verbatim>\<open>float32\<close>\<close>

text \<open>
  The sigmoid of \<^verbatim>\<open>float32\<close> is within \<^verbatim>\<open>2^-24\<close> of the logistic function; it is exactly
  1 from \<open>x\<close> with \<open>e\<^sup>x \<ge> 2\<^sup>2\<^sup>4\<close> on, and below 1 before.
\<close>

lemma float32_max_gt_1: "1 < float32_max"
  by (simp add: float32_max_def)


lemma round_even_of_int: "round_even (of_int n) = n"
  by (simp add: round_even_def)

lemma round_even_numeral: "round_even (numeral n) = numeral n"
  using round_even_of_int [of "numeral n"] by simp




lemma sigmoid_0: "sigmoid 0 = 1 / 2"
  using float32_max_gt_1 round_even_of_int [of "2 ^ 23"]
  by (simp add: sigmoid_def)








subsection \<open>Matrices by their entries\<close>

lemma length_mat_of [simp]: "length (mat_of r c f) = r"
  by (simp add: mat_of_def)

lemma nth_mat_of [simp]: "i < r \<Longrightarrow> mat_of r c f ! i = map (f i) [0..<c]"
  by (simp add: mat_of_def)


lemma has_shape_mat_of [simp]: "has_shape r c (mat_of r c f)"
  by (simp add: has_shape_def mat_of_def list_all_iff)

lemma mat_of_entries: "has_shape r c m \<Longrightarrow> mat_of r c (\<lambda>i j. m ! i ! j) = m"
  by (auto simp: has_shape_def list_all_iff mat_of_def intro!: nth_equalityI)

lemma mat_of_cong:
  "(\<And>i j. i < r \<Longrightarrow> j < c \<Longrightarrow> f i j = g i j) \<Longrightarrow> mat_of r c f = mat_of r c g"
  by (simp add: mat_of_def)

lemma has_shape_cols: "has_shape r c m \<Longrightarrow> 0 < r \<Longrightarrow> cols m = c"
  by (cases m) (simp_all add: has_shape_def cols_def)

lemma cols_mat_of: "0 < r \<Longrightarrow> cols (mat_of r c f) = c"
  by (rule has_shape_cols [OF has_shape_mat_of])

lemma cols_Cons [simp]: "cols (row # m) = length row"
  by (simp add: cols_def)

lemma bc_nth_nth: "i < length xs \<Longrightarrow> bc_nth xs i = xs ! i"
  by (auto simp: bc_nth_def)

lemma bc_nth_single [simp]: "bc_nth [x] i = x"
  by (simp add: bc_nth_def)

lemma bc_dim_same [simp]: "bc_dim n n = Some n"
  by (simp add: bc_dim_def)

lemma bc_dim_one [simp]: "bc_dim n (Suc 0) = Some n"
  by (simp add: bc_dim_def)

lemma broadcast_same:
  "broadcast g (mat_of r c f) (mat_of r c h) = Inr (mat_of r c (\<lambda>i j. g (f i j) (h i j)))"
proof (cases "r = 0")
  case True
  then show ?thesis by (simp add: broadcast_def mat_of_def)
next
  case False
  then have "broadcast g (mat_of r c f) (mat_of r c h)
    = Inr (map (\<lambda>i. map (\<lambda>j. g (bc_nth (bc_nth (mat_of r c f) i) j)
                                 (bc_nth (bc_nth (mat_of r c h) i) j)) [0..<c]) [0..<r])"
    by (simp add: broadcast_def cols_mat_of)
  also have "\<dots> = Inr (mat_of r c (\<lambda>i j. g (f i j) (h i j)))"
    by (simp add: mat_of_def bc_nth_nth)
  finally show ?thesis .
qed

lemma broadcast_row:
  assumes "length v = c"
  shows "broadcast g (mat_of r c f) [v] = Inr (mat_of r c (\<lambda>i j. g (f i j) (v ! j)))"
proof (cases "r = 0")
  case True
  then show ?thesis by (simp add: broadcast_def mat_of_def)
next
  case False
  then have "broadcast g (mat_of r c f) [v]
    = Inr (map (\<lambda>i. map (\<lambda>j. g (bc_nth (bc_nth (mat_of r c f) i) j)
                                 (bc_nth (bc_nth [v] i) j)) [0..<c]) [0..<r])"
    using assms by (simp add: broadcast_def cols_mat_of)
  also have "\<dots> = Inr (mat_of r c (\<lambda>i j. g (f i j) (v ! j)))"
    using assms by (simp add: mat_of_def bc_nth_nth)
  finally show ?thesis .
qed

lemma broadcast_scalar:
  "broadcast g (mat_of r c f) [[x]] = Inr (mat_of r c (\<lambda>i j. g (f i j) x))"
proof (cases "r = 0")
  case True
  then show ?thesis by (simp add: broadcast_def mat_of_def)
next
  case False
  then have "broadcast g (mat_of r c f) [[x]]
    = Inr (map (\<lambda>i. map (\<lambda>j. g (bc_nth (bc_nth (mat_of r c f) i) j)
                                 (bc_nth (bc_nth [[x]] i) j)) [0..<c]) [0..<r])"
    by (simp add: broadcast_def cols_mat_of)
  also have "\<dots> = Inr (mat_of r c (\<lambda>i j. g (f i j) x))"
    by (simp add: mat_of_def bc_nth_nth)
  finally show ?thesis .
qed

lemma binary_op_matrix:
  "binary_op g (Matrix (mat_of r c f)) (Matrix (mat_of r c h))
   = Inr (Matrix (mat_of r c (\<lambda>i j. g (f i j) (h i j))))"
  by (simp add: binary_op_def broadcast_same tf_bind_def of_matrix_def)

lemma binary_op_vector:
  "length v = c \<Longrightarrow>
   binary_op g (Matrix (mat_of r c f)) (Vector v)
   = Inr (Matrix (mat_of r c (\<lambda>i j. g (f i j) (v ! j))))"
  by (simp add: binary_op_def broadcast_row tf_bind_def of_matrix_def)

lemma binary_op_matrix_scalar:
  "binary_op g (Matrix (mat_of r c f)) (Scalar x)
   = Inr (Matrix (mat_of r c (\<lambda>i j. g (f i j) x)))"
  by (simp add: binary_op_def broadcast_scalar tf_bind_def of_matrix_def)

lemma binary_op_scalar:
  "binary_op g (Scalar x) (Scalar y) = Inr (Scalar (g x y))"
  by (simp add: binary_op_def broadcast_def tf_bind_def of_matrix_def cols_def bc_nth_def)

lemma map_tensor_matrix:
  "map_tensor g (Matrix (mat_of r c f)) = Inr (Matrix (mat_of r c (\<lambda>i j. g (f i j))))"
  by (simp add: mat_of_def comp_def)

lemma dropout_matrix:
  "dropout keep p (Matrix (mat_of r c f))
   = Inr (Matrix (mat_of r c (\<lambda>i j. f i j / p * (if keep i j then 1 else 0))))"
  by (simp add: mat_of_def)

lemma sum_list_upt: "sum_list (map f [0..<n]) = (\<Sum>i<n. f i)" for f :: "nat \<Rightarrow> real"
  by (simp add: sum_list_map_nth)

lemma matmul_matrix:
  assumes "has_shape m c b" "0 < m"
  shows "matmul (Matrix (mat_of r m f)) (Matrix b)
         = Inr (Matrix (mat_of r c (\<lambda>i j. \<Sum>k<m. f i k * b ! k ! j)))"
proof -
  have len: "length b = m" and cb: "cols b = c"
    using assms has_shape_cols by (auto simp: has_shape_def)
  have "list_all (\<lambda>row. length row = length b) (mat_of r m f)"
    by (simp add: len mat_of_def list_all_iff)
  moreover have "matmul_rows (mat_of r m f) b = mat_of r c (\<lambda>i j. \<Sum>k<m. f i k * b ! k ! j)"
    by (simp add: matmul_rows_def len cb mat_of_def sum_list_upt)
  ultimately show ?thesis by simp
qed

lemma sum_list_concat_rows: "sum_list (concat m) = sum_list (map sum_list m)"
  for m :: "real list list"
  by (induction m) simp_all

lemma reduce_sum_matrix:
  "reduce_sum (Matrix (mat_of r c f)) = Inr (Scalar (\<Sum>i<r. \<Sum>j<c. f i j))"
proof -
  have "sum_list (concat (mat_of r c f)) = sum_list (map sum_list (mat_of r c f))"
    by (rule sum_list_concat_rows)
  also have "\<dots> = (\<Sum>i<r. \<Sum>j<c. f i j)"
    by (simp add: mat_of_def comp_def sum_list_upt)
  finally show ?thesis by (simp add: reduce_sum_def)
qed

lemma reduce_sum_1_matrix:
  "reduce_sum_1 True (Matrix (mat_of r c f))
   = Inr (Matrix (mat_of r 1 (\<lambda>i j. \<Sum>k<c. f i k)))"
  by (simp add: mat_of_def sum_list_upt)

subsection \<open>The regularizer\<close>

text \<open>
  Whatever the variables hold, the regularizer node evaluates to half the sum of the
  squared norms: each \<^verbatim>\<open>tf.nn.l2_loss\<close> halves its sum of squares.
\<close>

lemma relation_ae_l2_loss_value:
  "eval tag_total s fd dr relation_ae_l2_loss = Inr (Scalar (L_reg s / 2))"
  by (simp add: relation_ae_l2_loss_def tf_bind2_def tf_bind_def l2_loss_def binary_op_def
      broadcast_def bc_dim_def cols_def bc_nth_def of_matrix_def square_sum_norm_sq
      square_sum_concat [unfolded square_sum_norm_sq] L_reg_def add_divide_distrib)

lemma ones_vars_ok: "variables_ok 1 10 ones_vars"
  by (simp add: variables_ok_def has_shape_def ones_vars_def rep_size_def list_all_iff)

lemma L_reg_ones_vars: "L_reg ones_vars = 640"
  by (simp add: L_reg_def ones_vars_def frobenius_sq_def norm_sq_def)

text \<open>
  C1. The claim is that the regularizer term of the warm-up and joint losses equals
  \<open>||W_enc||\<^sup>2 + ||W_dec||\<^sup>2 + ||b_enc||\<^sup>2 + ||b_dec||\<^sup>2\<close> for every value of the four
  tensors. On the variables \<open>ones_vars\<close>, whose encoder weight has 640 entries 1 and whose
  other autoencoder parameters are 0, that sum is 640, and the node
  \<^verbatim>\<open>relation_ae_l2_loss\<close> evaluates to 320.
\<close>

theorem relation_ae_l2_loss_at_ones_vars:
  "L_reg ones_vars = 640 \<and>
   eval 10 ones_vars fd dr relation_ae_l2_loss = Inr (Scalar 320)"
  using relation_ae_l2_loss_value [of 10 ones_vars fd dr] by (simp add: L_reg_ones_vars)

theorem relation_ae_l2_loss_at_ones_vars_witness:
  "eval 10 ones_vars Map.empty (\<lambda>op i j. True) relation_ae_l2_loss
   \<noteq> Inr (Scalar (L_reg ones_vars))"
  using relation_ae_l2_loss_at_ones_vars [of Map.empty "\<lambda>op i j. True"] by simp

subsection \<open>Embedding lookup and normalization\<close>

lemma epsilon_pos: "0 < epsilon"
  by (simp add: epsilon_def)

lemma square_sum_eq: "square_sum v = norm_sq v"
  by (simp add: square_sum_def square_sum_norm_sq)

lemma norm_sq_scale: "norm_sq (map (\<lambda>x. x * c) v) = c\<^sup>2 * norm_sq v"
  by (simp add: norm_sq_def power_mult_distrib sum_distrib_left mult.commute)

lemma epsilon_less_float32_max: "epsilon < float32_max"
  by (simp add: float32_max_def epsilon_def)

lemma below_float32_max: "x \<le> 10 ^ 38 \<Longrightarrow> x \<le> float32_max"
  by (simp add: float32_max_def)

lemma rsqrt_square_sum_finite:
  assumes "square_sum v \<le> float32_max"
  shows "rsqrt_square_sum v = 1 / sqrt (max (square_sum v) epsilon)"
  using assms by (simp add: rsqrt_square_sum_def)

lemma rsqrt_square_sum_overflow:
  assumes "float32_max < square_sum v"
  shows "rsqrt_square_sum v = 0"
  using assms by (simp add: rsqrt_square_sum_def)

lemma l2_normalize_row_unit:
  assumes "epsilon \<le> square_sum v" "square_sum v \<le> float32_max"
  shows "l2_norm (l2_normalize_row v) = 1"
proof -
  have pos: "0 < square_sum v" using assms epsilon_pos by linarith
  have "rsqrt_square_sum v = 1 / sqrt (square_sum v)"
    using assms by (simp add: rsqrt_square_sum_finite)
  then have "norm_sq (l2_normalize_row v) = (1 / sqrt (square_sum v))\<^sup>2 * norm_sq v"
    unfolding l2_normalize_row_def by (simp only: norm_sq_scale)
  also have "\<dots> = 1"
    using pos by (simp add: power_divide square_sum_eq)
  finally show ?thesis by (simp add: l2_norm_def)
qed

lemma l2_normalize_row_small:
  assumes "square_sum v < epsilon"
  shows "l2_norm (l2_normalize_row v) = sqrt (square_sum v) * 10 ^ 6"
proof -
  have "square_sum v \<le> float32_max"
    using assms epsilon_less_float32_max by linarith
  then have "rsqrt_square_sum v = 1 / sqrt epsilon"
    using assms by (simp add: rsqrt_square_sum_finite)
  moreover have "sqrt epsilon = 1 / 10 ^ 6"
    by (simp add: epsilon_def real_sqrt_divide)
  ultimately have "norm_sq (l2_normalize_row v) = (10 ^ 6)\<^sup>2 * norm_sq v"
    unfolding l2_normalize_row_def by (simp only: norm_sq_scale) simp
  then show ?thesis
    by (simp add: l2_norm_def square_sum_eq real_sqrt_mult mult.commute)
qed

lemma eval_lookup_int:
  assumes "fd p = Some (Ids ids)" "is_id_placeholder p"
      and "list_all (\<lambda>i. 0 \<le> i \<and> i < int (length (int_embeddings s))) ids"
  shows "eval tag_total s fd dr (L2_normalize (Embedding_lookup (Variable Int_embeddings) (Placeholder p)))
         = Inr (Matrix (map (\<lambda>i. l2_normalize_row (int_embeddings s ! nat i)) ids))"
  using assms by (simp add: tf_bind2_def tf_bind_def read_placeholder_def comp_def)

lemma eval_lookup_adv:
  assumes "fd p = Some (Ids ids)" "is_id_placeholder p"
      and "list_all (\<lambda>i. 0 \<le> i \<and> i < int (length (adv_embeddings s))) ids"
  shows "eval tag_total s fd dr (L2_normalize (Embedding_lookup (Variable Adv_embeddings) (Placeholder p)))
         = Inr (Matrix (map (\<lambda>i. l2_normalize_row (adv_embeddings s ! nat i)) ids))"
  using assms by (simp add: tf_bind2_def tf_bind_def read_placeholder_def comp_def)

lemma train_feed_simps:
  "train_feed b Pos_h = Some (Ids (pos_h_batch b))"
  "train_feed b Pos_t = Some (Ids (pos_t_batch b))"
  "train_feed b Pos_r = Some (Matrix (pos_r_batch b))"
  "train_feed b Pos_br = Some (Matrix (pos_b_batch b))"
  "train_feed b Neg_h = Some (Ids (neg_h_batch b))"
  "train_feed b Neg_t = Some (Ids (neg_t_batch b))"
  "train_feed b Neg_r = Some (Matrix (neg_r_batch b))"
  "train_feed b Neg_br = Some (Matrix (neg_b_batch b))"
  by (simp_all add: train_feed_def)

lemma lookup_nodes:
  "pos_h_e = L2_normalize (Embedding_lookup (Variable Int_embeddings) (Placeholder Pos_h))"
  "pos_t_e = L2_normalize (Embedding_lookup (Variable Adv_embeddings) (Placeholder Pos_t))"
  "neg_h_e = L2_normalize (Embedding_lookup (Variable Int_embeddings) (Placeholder Neg_h))"
  "neg_t_e = L2_normalize (Embedding_lookup (Variable Adv_embeddings) (Placeholder Neg_t))"
  by (simp_all add: pos_h_e_def pos_t_e_def neg_h_e_def neg_t_e_def lookup_def
      pos_h_def pos_t_def neg_h_def neg_t_def)

lemma one_edge_batch_ok: "train_batch_ok 1 10 1 one_edge_batch"
  by (simp add: train_batch_ok_def ids_ok_def has_shape_def one_edge_batch_def)

lemma square_sum_replicate: "square_sum (replicate n c) = of_nat n * (c * c)"
  by (simp add: square_sum_def sum_list_replicate)

lemma norm_sq_replicate: "norm_sq (replicate n c) = of_nat n * (c * c)"
  using square_sum_replicate [of n c] by (simp add: square_sum_eq)

text \<open>
  C2 (as amended). For every batch whose vertex IDs are rows of the tables with a sum of
  squares of at least \<^verbatim>\<open>1e-12\<close> and at most \<^verbatim>\<open>1e38\<close>, the four tensors that \<^verbatim>\<open>lookup\<close>
  returns are computed, have one row for each ID, and each of their rows has L2 norm 1.
\<close>

theorem lookup_unit_norm:
  assumes "rows_in_range (int_embeddings s) (pos_h_batch b)"
      and "rows_in_range (adv_embeddings s) (pos_t_batch b)"
      and "rows_in_range (int_embeddings s) (neg_h_batch b)"
      and "rows_in_range (adv_embeddings s) (neg_t_batch b)"
  shows "\<exists>ph pt nh nt.
           eval tag_total s (train_feed b) dr pos_h_e = Inr (Matrix ph) \<and>
           eval tag_total s (train_feed b) dr pos_t_e = Inr (Matrix pt) \<and>
           eval tag_total s (train_feed b) dr neg_h_e = Inr (Matrix nh) \<and>
           eval tag_total s (train_feed b) dr neg_t_e = Inr (Matrix nt) \<and>
           length ph = length (pos_h_batch b) \<and> length pt = length (pos_t_batch b) \<and>
           length nh = length (neg_h_batch b) \<and> length nt = length (neg_t_batch b) \<and>
           list_all (\<lambda>row. l2_norm row = 1) (ph @ pt @ nh @ nt)"
proof -
  have unit: "list_all (\<lambda>row. l2_norm row = 1) (map (\<lambda>i. l2_normalize_row (table ! nat i)) ids)"
    if "rows_in_range table ids" for table ids
    using that
    by (auto simp: rows_in_range_def list_all_iff square_sum_eq epsilon_def
        intro!: l2_normalize_row_unit below_float32_max)
  have range: "list_all (\<lambda>i. 0 \<le> i \<and> i < int (length table)) ids"
    if "rows_in_range table ids" for table ids
    using that by (auto simp: rows_in_range_def list_all_iff)
  show ?thesis
    using assms
    by (simp add: lookup_nodes eval_lookup_int eval_lookup_adv train_feed_simps range unit
        del: eval.simps)
qed

theorem lookup_unit_norm_witness:
  "rows_in_range (int_embeddings ones_vars) (pos_h_batch one_edge_batch) \<and>
   rows_in_range (adv_embeddings ones_vars) (pos_t_batch one_edge_batch) \<and>
   rows_in_range (int_embeddings ones_vars) (neg_h_batch one_edge_batch) \<and>
   rows_in_range (adv_embeddings ones_vars) (neg_t_batch one_edge_batch) \<and>
   (\<exists>ph pt nh nt.
      eval 10 ones_vars (train_feed one_edge_batch) keep_all pos_h_e = Inr (Matrix ph) \<and>
      eval 10 ones_vars (train_feed one_edge_batch) keep_all pos_t_e = Inr (Matrix pt) \<and>
      eval 10 ones_vars (train_feed one_edge_batch) keep_all neg_h_e = Inr (Matrix nh) \<and>
      eval 10 ones_vars (train_feed one_edge_batch) keep_all neg_t_e = Inr (Matrix nt) \<and>
      length ph = length (pos_h_batch one_edge_batch) \<and>
      length pt = length (pos_t_batch one_edge_batch) \<and>
      length nh = length (neg_h_batch one_edge_batch) \<and>
      length nt = length (neg_t_batch one_edge_batch) \<and>
      list_all (\<lambda>row. l2_norm row = 1) (ph @ pt @ nh @ nt))"
proof -
  have u: "rows_in_range [replicate 64 1] [0]"
    by (simp add: rows_in_range_def norm_sq_replicate float32_max_def)
  have h: "rows_in_range (int_embeddings ones_vars) (pos_h_batch one_edge_batch)"
          "rows_in_range (adv_embeddings ones_vars) (pos_t_batch one_edge_batch)"
          "rows_in_range (int_embeddings ones_vars) (neg_h_batch one_edge_batch)"
          "rows_in_range (adv_embeddings ones_vars) (neg_t_batch one_edge_batch)"
    using u by (simp_all add: ones_vars_def one_edge_batch_def)
  from lookup_unit_norm [OF h, of 10 keep_all] h show ?thesis by blast
qed

text \<open>
  C2 (as claimed) fails on a table with a zero row and on a table with a row of large
  entries. \<^verbatim>\<open>tf.nn.l2_normalize\<close> multiplies the zero row by \<^verbatim>\<open>rsqrt(epsilon)\<close>, which
  leaves it zero. The sum of squares of 64 entries \<^verbatim>\<open>1e20\<close> is above the largest
  \<^verbatim>\<open>float32\<close>, so it is \<^verbatim>\<open>inf\<close> and the row is multiplied by \<^verbatim>\<open>rsqrt(inf) = 0\<close>. In both
  runs the positive head embedding that \<^verbatim>\<open>lookup\<close> returns has norm 0.
\<close>

theorem lookup_zero_row_counterexample:
  "eval 10 zero_head_vars (train_feed one_edge_batch) keep_all pos_h_e
     = Inr (Matrix [replicate 64 0]) \<and>
   eval 10 huge_head_vars (train_feed one_edge_batch) keep_all pos_h_e
     = Inr (Matrix [replicate 64 0]) \<and>
   l2_norm (replicate 64 0) = 0"
proof -
  have zero: "l2_normalize_row (replicate 64 0) = replicate 64 0"
    by (simp add: l2_normalize_row_def)
  have "float32_max < square_sum (replicate 64 (10 ^ 20))"
    by (simp add: square_sum_replicate float32_max_def)
  then have huge: "l2_normalize_row (replicate 64 (10 ^ 20)) = replicate 64 0"
    by (simp add: l2_normalize_row_def rsqrt_square_sum_overflow)
  show ?thesis
    using zero huge
    by (simp add: lookup_nodes eval_lookup_int train_feed_simps zero_head_vars_def
        huge_head_vars_def ones_vars_def one_edge_batch_def l2_norm_def norm_sq_replicate
        del: eval.simps)
qed

subsection \<open>The values of the autoencoder's nodes\<close>

lemma eval_placeholder_matrix:
  assumes "fd p = Some (Matrix x)" "\<not> is_id_placeholder p" "has_shape n tag_total x"
  shows "eval tag_total s fd dr (Placeholder p) = Inr (Matrix (mat_of n tag_total (\<lambda>i j. x ! i ! j)))"
  using assms by (simp add: read_placeholder_def mat_of_entries) (simp add: has_shape_def)

lemma tf_bind_Inr [simp]: "tf_bind (Inr x) f = f x"
  by (simp add: tf_bind_def)

lemma tf_bind2_Inr [simp]: "tf_bind2 (Inr x) (Inr y) f = f x y"
  by (simp add: tf_bind2_def)

lemma autoencoder_nodes:
  "fst (autoencoder op x) =
     Dropout op (Tanh (Add (Matmul x (Variable Encoder_w)) (Variable Encoder_b))) keep_prob"
  "snd (autoencoder op x) =
     Sigmoid (Add (Matmul (fst (autoencoder op x)) (Variable Decoder_w)) (Variable Decoder_b))"
  by (simp_all add: autoencoder_def Let_def)

lemma eval_encoder:
  assumes v: "variables_ok entity_total tag_total s" and t: "0 < tag_total"
      and x: "eval tag_total s fd dr x_node = Inr (Matrix (mat_of n tag_total (\<lambda>i j. x ! i ! j)))"
  shows "eval tag_total s fd dr (fst (autoencoder op x_node))
         = Inr (Matrix (mat_of n rep_size (encode s (dr op) x)))"
proof -
  have w: "has_shape tag_total rep_size (encoder_w s)" and b: "length (encoder_b s) = rep_size"
    using v by (simp_all add: variables_ok_def)
  have len: "length (encoder_w s) = tag_total"
    using w by (simp add: has_shape_def)
  show ?thesis
    by (simp add: autoencoder_nodes x matmul_matrix [OF w t] binary_op_vector [OF b]
        map_tensor_matrix dropout_matrix encode_def [abs_def] len
        del: matmul.simps map_tensor.simps dropout.simps)
qed

lemma eval_decoder:
  assumes v: "variables_ok entity_total tag_total s" and t: "0 < tag_total"
      and x: "eval tag_total s fd dr x_node = Inr (Matrix (mat_of n tag_total (\<lambda>i j. x ! i ! j)))"
  shows "eval tag_total s fd dr (snd (autoencoder op x_node))
         = Inr (Matrix (mat_of n tag_total (decode s (encode s (dr op) x))))"
proof -
  have w: "has_shape rep_size tag_total (decoder_w s)" and b: "length (decoder_b s) = tag_total"
    using v by (simp_all add: variables_ok_def)
  have len: "length (decoder_w s) = rep_size"
    using w by (simp add: has_shape_def)
  have r: "0 < rep_size" by (simp add: rep_size_def)
  note rep = eval_encoder [OF v t x, of op]
  show ?thesis
    by (subst autoencoder_nodes(2))
       (simp add: rep matmul_matrix [OF w r] binary_op_vector [OF b]
        map_tensor_matrix decode_def [abs_def] len del: matmul.simps map_tensor.simps)
qed


lemma eval_reconstruction:
  assumes v: "variables_ok entity_total tag_total s" and t: "0 < tag_total"
      and r: "fd p = Some (Matrix r)" "\<not> is_id_placeholder p" "has_shape n tag_total r"
      and w: "fd q = Some (Matrix w)" "\<not> is_id_placeholder q" "has_shape n tag_total w"
  shows "eval tag_total s fd dr
           (Reduce_sum (Abs (Multiply (Sub (snd (autoencoder op (Placeholder p))) (Placeholder p))
                                      (Placeholder q))))
         = Inr (Scalar (L_ae n tag_total (decode s (encode s (dr op) r)) r w))"
proof -
  note pr = eval_placeholder_matrix [where fd = fd and p = p and s = s and dr = dr, OF r]
  note pw = eval_placeholder_matrix [where fd = fd and p = q and s = s and dr = dr, OF w]
  note dec = eval_decoder [OF v t pr, of op]
  show ?thesis
    by (simp add: dec pr pw binary_op_matrix map_tensor_matrix reduce_sum_matrix L_ae_def
        del: eval.simps(2) map_tensor.simps)
qed

subsection \<open>The values of the translation nodes\<close>

lemma lookup_rows:
  assumes "has_shape entity_total rep_size table" "ids_ok entity_total n ids"
  shows "map (\<lambda>i. l2_normalize_row (table ! nat i)) ids = mat_of n rep_size (embedding table ids)"
proof (rule nth_equalityI)
  show "length (map (\<lambda>i. l2_normalize_row (table ! nat i)) ids)
        = length (mat_of n rep_size (embedding table ids))"
    using assms by (simp add: ids_ok_def)
next
  fix i
  assume "i < length (map (\<lambda>i. l2_normalize_row (table ! nat i)) ids)"
  then have i: "i < n" "i < length ids" using assms by (simp_all add: ids_ok_def)
  then have "0 \<le> ids ! i \<and> ids ! i < int entity_total"
    using assms by (simp add: ids_ok_def list_all_length)
  then have "nat (ids ! i) < length table"
    using assms(1) by (auto simp: has_shape_def)
  then have "length (table ! nat (ids ! i)) = rep_size"
    using assms by (simp add: has_shape_def list_all_length)
  then have "l2_normalize_row (table ! nat (ids ! i)) = map (embedding table ids i) [0..<rep_size]"
    by (auto simp: embedding_def l2_normalize_row_def intro!: nth_equalityI)
  then show "map (\<lambda>i. l2_normalize_row (table ! nat i)) ids ! i
             = mat_of n rep_size (embedding table ids) ! i"
    using i by simp
qed

lemma ids_ok_range:
  "has_shape entity_total c table \<Longrightarrow> ids_ok entity_total n ids \<Longrightarrow>
   list_all (\<lambda>i. 0 \<le> i \<and> i < int (length table)) ids"
  by (simp add: has_shape_def ids_ok_def)

lemma eval_head:
  assumes "variables_ok entity_total tag_total s" "fd p = Some (Ids ids)" "is_id_placeholder p"
      and "ids_ok entity_total n ids"
  shows "eval tag_total s fd dr
           (L2_normalize (Embedding_lookup (Variable Int_embeddings) (Placeholder p)))
         = Inr (Matrix (mat_of n rep_size (embedding (int_embeddings s) ids)))"
proof -
  have t: "has_shape entity_total rep_size (int_embeddings s)"
    using assms(1) by (simp add: variables_ok_def)
  show ?thesis
    using eval_lookup_int [where fd = fd and p = p and tag_total = tag_total and dr = dr,
        OF assms(2,3) ids_ok_range [OF t assms(4)]]
    by (simp only: lookup_rows [OF t assms(4)])
qed

lemma eval_tail:
  assumes "variables_ok entity_total tag_total s" "fd p = Some (Ids ids)" "is_id_placeholder p"
      and "ids_ok entity_total n ids"
  shows "eval tag_total s fd dr
           (L2_normalize (Embedding_lookup (Variable Adv_embeddings) (Placeholder p)))
         = Inr (Matrix (mat_of n rep_size (embedding (adv_embeddings s) ids)))"
proof -
  have t: "has_shape entity_total rep_size (adv_embeddings s)"
    using assms(1) by (simp add: variables_ok_def)
  show ?thesis
    using eval_lookup_adv [where fd = fd and p = p and tag_total = tag_total and dr = dr,
        OF assms(2,3) ids_ok_range [OF t assms(4)]]
    by (simp only: lookup_rows [OF t assms(4)])
qed

lemma eval_distance:
  assumes "eval tag_total s fd dr h = Inr (Matrix (mat_of n rep_size u))"
      and "eval tag_total s fd dr l = Inr (Matrix (mat_of n rep_size rep))"
      and "eval tag_total s fd dr t = Inr (Matrix (mat_of n rep_size v))"
  shows "eval tag_total s fd dr (Reduce_sum_1 (Abs (Sub (Add h l) t)) True)
         = Inr (Matrix (mat_of n 1 (\<lambda>i j. distance u v rep i)))"
  by (simp add: assms binary_op_matrix map_tensor_matrix reduce_sum_1_matrix distance_def
      del: map_tensor.simps reduce_sum_1.simps)

lemma eval_hinge:
  assumes "eval tag_total s fd dr p = Inr (Matrix (mat_of n 1 (\<lambda>i j. d_pos i)))"
      and "eval tag_total s fd dr q = Inr (Matrix (mat_of n 1 (\<lambda>i j. d_neg i)))"
  shows "eval tag_total s fd dr (Reduce_sum (Maximum (Add (Sub p q) (Const gamma)) (Const 0)))
         = Inr (Scalar (L_trans 1 n d_pos d_neg))"
  by (simp add: assms binary_op_matrix binary_op_matrix_scalar reduce_sum_matrix L_trans_def
      gamma_def max.commute add.commute add_diff_eq)

subsection \<open>The losses of a training batch\<close>

lemma train_batch_okD:
  assumes "train_batch_ok entity_total tag_total n b"
  shows "ids_ok entity_total n (pos_h_batch b)" "ids_ok entity_total n (pos_t_batch b)"
        "has_shape n tag_total (pos_r_batch b)" "has_shape n tag_total (pos_b_batch b)"
        "ids_ok entity_total n (neg_h_batch b)" "ids_ok entity_total n (neg_t_batch b)"
        "has_shape n tag_total (neg_r_batch b)" "has_shape n tag_total (neg_b_batch b)"
  using assms by (simp_all add: train_batch_ok_def)

lemma loss_nodes:
  "pos_r_rep = fst (autoencoder Dropout_pos (Placeholder Pos_r))"
  "pos_r_dec = snd (autoencoder Dropout_pos (Placeholder Pos_r))"
  "neg_r_rep = fst (autoencoder Dropout_neg (Placeholder Neg_r))"
  "neg_r_dec = snd (autoencoder Dropout_neg (Placeholder Neg_r))"
  by (simp_all add: pos_r_rep_def pos_r_dec_def neg_r_rep_def neg_r_dec_def pos_r_def neg_r_def)

lemma eval_trans_loss:
  assumes v: "variables_ok entity_total tag_total s" and t: "0 < tag_total"
      and b: "train_batch_ok entity_total tag_total n b"
  shows "eval tag_total s (train_feed b) dr trans_loss
         = Inr (Scalar (L_trans 1 n (pos_distance s dr b) (neg_distance s dr b)))"
proof -
  note ok = train_batch_okD [OF b]
  have pr: "eval tag_total s (train_feed b) dr (Placeholder Pos_r)
            = Inr (Matrix (mat_of n tag_total (\<lambda>i j. pos_r_batch b ! i ! j)))"
    by (rule eval_placeholder_matrix [where fd = "train_feed b" and p = Pos_r,
          OF train_feed_simps(3) _ ok(3)]) simp
  have nr: "eval tag_total s (train_feed b) dr (Placeholder Neg_r)
            = Inr (Matrix (mat_of n tag_total (\<lambda>i j. neg_r_batch b ! i ! j)))"
    by (rule eval_placeholder_matrix [where fd = "train_feed b" and p = Neg_r,
          OF train_feed_simps(7) _ ok(7)]) simp
  have p: "eval tag_total s (train_feed b) dr pos
           = Inr (Matrix (mat_of n 1 (\<lambda>i j. pos_distance s dr b i)))"
    unfolding pos_def pos_distance_def lookup_nodes loss_nodes
    by (rule eval_distance
          [OF eval_head [where fd = "train_feed b" and p = Pos_h, OF v train_feed_simps(1) _ ok(1)]
              eval_encoder [OF v t pr]
              eval_tail [where fd = "train_feed b" and p = Pos_t, OF v train_feed_simps(2) _ ok(2)]])
       simp_all
  have q: "eval tag_total s (train_feed b) dr neg
           = Inr (Matrix (mat_of n 1 (\<lambda>i j. neg_distance s dr b i)))"
    unfolding neg_def neg_distance_def lookup_nodes loss_nodes
    by (rule eval_distance
          [OF eval_head [where fd = "train_feed b" and p = Neg_h, OF v train_feed_simps(5) _ ok(5)]
              eval_encoder [OF v t nr]
              eval_tail [where fd = "train_feed b" and p = Neg_t, OF v train_feed_simps(6) _ ok(6)]])
       simp_all
  show ?thesis
    unfolding trans_loss_def by (rule eval_hinge [OF p q])
qed

lemma eval_relation_loss:
  assumes v: "variables_ok entity_total tag_total s" and t: "0 < tag_total"
      and b: "train_batch_ok entity_total tag_total n b"
  shows "eval tag_total s (train_feed b) dr relation_loss
         = Inr (Scalar (pos_L_ae n tag_total s dr (pos_r_batch b) (pos_b_batch b)
                        + neg_L_ae n tag_total s dr (neg_r_batch b) (neg_b_batch b)))"
proof -
  note ok = train_batch_okD [OF b]
  have p: "eval tag_total s (train_feed b) dr
             (Reduce_sum (Abs (Multiply (Sub pos_r_dec pos_r) pos_br)))
           = Inr (Scalar (pos_L_ae n tag_total s dr (pos_r_batch b) (pos_b_batch b)))"
    unfolding loss_nodes pos_r_def pos_br_def pos_L_ae_def
    by (rule eval_reconstruction
          [where fd = "train_feed b" and p = Pos_r and q = Pos_br,
           OF v t train_feed_simps(3) _ ok(3) train_feed_simps(4) _ ok(4)]) simp_all
  have q: "eval tag_total s (train_feed b) dr
             (Reduce_sum (Abs (Multiply (Sub neg_r_dec neg_r) neg_br)))
           = Inr (Scalar (neg_L_ae n tag_total s dr (neg_r_batch b) (neg_b_batch b)))"
    unfolding loss_nodes neg_r_def neg_br_def neg_L_ae_def
    by (rule eval_reconstruction
          [where fd = "train_feed b" and p = Neg_r and q = Neg_br,
           OF v t train_feed_simps(7) _ ok(7) train_feed_simps(8) _ ok(8)]) simp_all
  show ?thesis
    unfolding relation_loss_def
    by (simp only: eval.simps(7) p q tf_bind2_Inr binary_op_scalar)
qed

lemma ae_feed_simps:
  "ae_feed (vecs, bs) Pos_r = Some (Matrix vecs)"
  "ae_feed (vecs, bs) Pos_br = Some (Matrix bs)"
  by (simp_all add: ae_feed_def)

lemma eval_relation_pos_r_loss:
  assumes v: "variables_ok entity_total tag_total s" and t: "0 < tag_total"
      and b: "ae_batch_ok tag_total n batch"
  shows "eval tag_total s (ae_feed batch) dr relation_pos_r_loss
         = Inr (Scalar (pos_L_ae n tag_total s dr (fst batch) (snd batch)
                        + 1 / 1000 * (L_reg s / 2)))"
proof -
  obtain vecs bs where batch: "batch = (vecs, bs)" by (cases batch)
  have ok: "has_shape n tag_total vecs" "has_shape n tag_total bs"
    using b by (simp_all add: ae_batch_ok_def batch)
  have p: "eval tag_total s (ae_feed batch) dr
             (Reduce_sum (Abs (Multiply (Sub pos_r_dec pos_r) pos_br)))
           = Inr (Scalar (pos_L_ae n tag_total s dr vecs bs))"
    unfolding loss_nodes pos_r_def pos_br_def pos_L_ae_def batch
    by (rule eval_reconstruction
          [where fd = "ae_feed (vecs, bs)" and p = Pos_r and q = Pos_br,
           OF v t ae_feed_simps(1) _ ok(1) ae_feed_simps(2) _ ok(2)]) simp_all
  show ?thesis
    unfolding relation_pos_r_loss_def
    by (simp only: eval.simps(3,7,9) p [unfolded batch] relation_ae_l2_loss_value tf_bind2_Inr binary_op_scalar
        l2_lambda_def batch fst_conv snd_conv)
qed

lemma placeholders_of_relation_pos_r_loss:
  "placeholders_of relation_pos_r_loss = {Pos_r, Pos_br}"
  by (auto simp: relation_pos_r_loss_def relation_ae_l2_loss_def loss_nodes autoencoder_nodes
      pos_r_def pos_br_def)

lemma vars_of_relation_pos_r_loss:
  "vars_of relation_pos_r_loss = {Encoder_w, Decoder_w, Encoder_b, Decoder_b}"
  by (auto simp: relation_pos_r_loss_def relation_ae_l2_loss_def loss_nodes autoencoder_nodes
      pos_r_def pos_br_def)

lemma dropouts_of_relation_pos_r_loss:
  "dropouts_of relation_pos_r_loss = {Dropout_pos}"
  by (auto simp: relation_pos_r_loss_def relation_ae_l2_loss_def loss_nodes autoencoder_nodes
      pos_r_def pos_br_def)

lemma placeholders_of_subnodes: "a \<in> subnodes b \<Longrightarrow> placeholders_of a \<subseteq> placeholders_of b"
  by (induction b) auto

lemma trans_loss_needs_pos_h: "Pos_h \<in> placeholders_of trans_loss"
  by (simp add: trans_loss_def pos_def lookup_nodes)

lemma trans_loss_not_in_warm_up: "trans_loss \<notin> subnodes relation_pos_r_loss"
  using placeholders_of_subnodes [of trans_loss relation_pos_r_loss] trans_loss_needs_pos_h
  by (auto simp: placeholders_of_relation_pos_r_loss)

lemma one_label_batch_ok:
  "ae_batch_ok 10 1 (pos_r_batch one_edge_batch, pos_b_batch one_edge_batch)"
  by (simp add: ae_batch_ok_def has_shape_def one_edge_batch_def)

text \<open>
  The rows that \<^verbatim>\<open>lookup\<close> returns are the rows of the table divided by their norm, when
  the sums of squares of the rows do not overflow.
\<close>

lemma embedding_normalized:
  assumes "norm_sq (table ! nat (ids ! i)) \<le> float32_max" "j < length (table ! nat (ids ! i))"
  shows "embedding table ids i j = normalized table ids i j"
  using assms
  by (simp add: embedding_def normalized_def l2_normalize_row_def rsqrt_square_sum_finite
      square_sum_eq epsilon_def)

lemma embedding_normalized_row:
  assumes "has_shape entity_total rep_size table" "ids_ok entity_total n ids"
      and "finite_rows table" "i < n" "j < rep_size"
  shows "embedding table ids i j = normalized table ids i j"
proof -
  have "0 \<le> ids ! i \<and> ids ! i < int entity_total"
    using assms by (simp add: ids_ok_def list_all_length)
  then have r: "nat (ids ! i) < length table"
    using assms(1) by (auto simp: has_shape_def)
  then have "length (table ! nat (ids ! i)) = rep_size"
    using assms(1) by (simp add: has_shape_def list_all_length)
  moreover have "norm_sq (table ! nat (ids ! i)) \<le> float32_max"
    using assms(3) r by (simp add: finite_rows_def list_all_length below_float32_max)
  ultimately show ?thesis
    using assms(5) by (simp add: embedding_normalized)
qed

lemma distance_normalized:
  assumes "has_shape entity_total rep_size ta" "ids_ok entity_total n ia" "finite_rows ta"
      and "has_shape entity_total rep_size tb" "ids_ok entity_total n ib" "finite_rows tb"
      and "i < n"
  shows "distance (embedding ta ia) (embedding tb ib) l i
         = distance (normalized ta ia) (normalized tb ib) l i"
  unfolding distance_def
  by (rule sum.cong)
     (simp_all add: embedding_normalized_row [OF assms(1-3) assms(7)]
        embedding_normalized_row [OF assms(4-6) assms(7)])

lemma eval_trans_loss_normalized:
  assumes v: "variables_ok entity_total tag_total s" and t: "0 < tag_total"
      and b: "train_batch_ok entity_total tag_total n b"
      and f: "finite_rows (int_embeddings s)" "finite_rows (adv_embeddings s)"
  shows "eval tag_total s (train_feed b) dr trans_loss
         = Inr (Scalar (L_trans 1 n
             (distance (normalized (int_embeddings s) (pos_h_batch b))
                       (normalized (adv_embeddings s) (pos_t_batch b))
                       (encode s (dr Dropout_pos) (pos_r_batch b)))
             (distance (normalized (int_embeddings s) (neg_h_batch b))
                       (normalized (adv_embeddings s) (neg_t_batch b))
                       (encode s (dr Dropout_neg) (neg_r_batch b)))))"
proof -
  note ok = train_batch_okD [OF b]
  have sh: "has_shape entity_total rep_size (int_embeddings s)"
           "has_shape entity_total rep_size (adv_embeddings s)"
    using v by (simp_all add: variables_ok_def)
  have "L_trans 1 n (pos_distance s dr b) (neg_distance s dr b)
        = L_trans 1 n
             (distance (normalized (int_embeddings s) (pos_h_batch b))
                       (normalized (adv_embeddings s) (pos_t_batch b))
                       (encode s (dr Dropout_pos) (pos_r_batch b)))
             (distance (normalized (int_embeddings s) (neg_h_batch b))
                       (normalized (adv_embeddings s) (neg_t_batch b))
                       (encode s (dr Dropout_neg) (neg_r_batch b)))"
    unfolding L_trans_def pos_distance_def neg_distance_def
    by (rule sum.cong)
       (simp_all add: distance_normalized [OF sh(1) ok(1) f(1) sh(2) ok(2) f(2)]
          distance_normalized [OF sh(1) ok(5) f(1) sh(2) ok(6) f(2)])
  then show ?thesis
    using eval_trans_loss [OF v t b, of dr] by simp
qed

















text \<open>
  For every well-formed batch the joint loss node evaluates to
  \<open>L_trans + 1/2 (L_ae(pos) + L_ae(neg)) + 1/1000 \<sqdot> L_reg / 2\<close>: its last term is the scaled
  value of the regularizer node, which is half of \<open>L_reg\<close>.
\<close>

lemma eval_loss:
  assumes v: "variables_ok entity_total tag_total s" and t: "0 < tag_total"
      and b: "train_batch_ok entity_total tag_total n b"
      and f: "finite_rows (int_embeddings s)" "finite_rows (adv_embeddings s)"
  shows "eval tag_total s (train_feed b) dr loss
         = Inr (Scalar (L_trans 1 n
                  (distance (normalized (int_embeddings s) (pos_h_batch b))
                            (normalized (adv_embeddings s) (pos_t_batch b))
                            (encode s (dr Dropout_pos) (pos_r_batch b)))
                  (distance (normalized (int_embeddings s) (neg_h_batch b))
                            (normalized (adv_embeddings s) (neg_t_batch b))
                            (encode s (dr Dropout_neg) (neg_r_batch b)))
                + 1 / 2 * (L_ae n tag_total
                             (decode s (encode s (dr Dropout_pos) (pos_r_batch b)))
                             (pos_r_batch b) (pos_b_batch b)
                           + L_ae n tag_total
                               (decode s (encode s (dr Dropout_neg) (neg_r_batch b)))
                               (neg_r_batch b) (neg_b_batch b))
                + 1 / 1000 * (L_reg s / 2)))"
  unfolding loss_def
  by (simp only: eval.simps(3,7,9) eval_trans_loss_normalized [OF v t b f]
      eval_relation_loss [OF v t b] relation_ae_l2_loss_value tf_bind2_Inr binary_op_scalar
      alpha_def l2_lambda_def pos_L_ae_def neg_L_ae_def)

lemma ones_vars_simps:
  "int_embeddings ones_vars = [replicate 64 1]"
  "adv_embeddings ones_vars = [replicate 64 1]"
  "encoder_w ones_vars = replicate 10 (replicate 64 1)"
  "encoder_b ones_vars = replicate 64 0"
  "decoder_w ones_vars = replicate 64 (replicate 10 0)"
  "decoder_b ones_vars = replicate 10 0"
  by (simp_all add: ones_vars_def)

lemma one_edge_batch_simps:
  "pos_h_batch one_edge_batch = [0]" "pos_t_batch one_edge_batch = [0]"
  "neg_h_batch one_edge_batch = [0]" "neg_t_batch one_edge_batch = [0]"
  "pos_r_batch one_edge_batch = [[1, 0, 0, 0, 0, 0, 0, 0, 0, 0]]"
  "pos_b_batch one_edge_batch = [[50, 1, 1, 1, 1, 1, 1, 1, 1, 1]]"
  "neg_r_batch one_edge_batch = [[0, 1, 0, 0, 0, 0, 0, 0, 0, 0]]"
  "neg_b_batch one_edge_batch = [[1, 50, 1, 1, 1, 1, 1, 1, 1, 1]]"
  by (simp_all add: one_edge_batch_def)

lemma ones_vars_finite:
  "finite_rows (int_embeddings ones_vars)" "finite_rows (adv_embeddings ones_vars)"
  by (simp_all add: finite_rows_def ones_vars_simps norm_sq_replicate float32_max_def)

lemma encode_ones_vars:
  assumes "j < 64"
  shows "encode ones_vars (keep_all op) [[1, 0, 0, 0, 0, 0, 0, 0, 0, 0]] 0 j = 2 * tanh 1"
        "encode ones_vars (keep_all op) [[0, 1, 0, 0, 0, 0, 0, 0, 0, 0]] 0 j = 2 * tanh 1"
proof -
  have "(\<Sum>k<10. [[1, 0, 0, 0, 0, 0, 0, 0, 0, 0::real]] ! 0 ! k
                   * replicate 10 (replicate 64 (1::real)) ! k ! j) = 1"
       "(\<Sum>k<10. [[0, 1, 0, 0, 0, 0, 0, 0, 0, 0::real]] ! 0 ! k
                   * replicate 10 (replicate 64 (1::real)) ! k ! j) = 1"
    using assms by (simp_all add: lessThan_nat_numeral lessThan_Suc)
  then show "encode ones_vars (keep_all op) [[1, 0, 0, 0, 0, 0, 0, 0, 0, 0]] 0 j = 2 * tanh 1"
            "encode ones_vars (keep_all op) [[0, 1, 0, 0, 0, 0, 0, 0, 0, 0]] 0 j = 2 * tanh 1"
    using assms by (simp_all add: encode_def ones_vars_simps keep_all_def keep_prob_def)
qed

lemma L_trans_one_edge_batch:
  "L_trans 1 1
     (distance (normalized (int_embeddings ones_vars) (pos_h_batch one_edge_batch))
               (normalized (adv_embeddings ones_vars) (pos_t_batch one_edge_batch))
               (encode ones_vars (keep_all Dropout_pos) (pos_r_batch one_edge_batch)))
     (distance (normalized (int_embeddings ones_vars) (neg_h_batch one_edge_batch))
               (normalized (adv_embeddings ones_vars) (neg_t_batch one_edge_batch))
               (encode ones_vars (keep_all Dropout_neg) (neg_r_batch one_edge_batch)))
   = 1"
proof -
  have "distance (normalized [replicate 64 1] [0]) (normalized [replicate 64 1] [0])
          (encode ones_vars (keep_all Dropout_pos) [[1, 0, 0, 0, 0, 0, 0, 0, 0, 0]]) 0
        = distance (normalized [replicate 64 1] [0]) (normalized [replicate 64 1] [0])
            (encode ones_vars (keep_all Dropout_neg) [[0, 1, 0, 0, 0, 0, 0, 0, 0, 0]]) 0"
    by (simp add: distance_def rep_size_def encode_ones_vars)
  then show ?thesis
    by (simp add: L_trans_def ones_vars_simps one_edge_batch_simps)
qed

lemma decode_ones_vars:
  assumes "j < 10"
  shows "decode ones_vars rep i j = 1 / 2"
proof -
  have "(\<Sum>k<64. rep i k * replicate 64 (replicate 10 (0::real)) ! k ! j) = 0"
    using assms by (simp add: sum.neutral)
  then show ?thesis
    using assms by (simp add: decode_def ones_vars_simps sigmoid_0)
qed

lemma L_ae_one_edge_batch:
  "L_ae 1 10 (decode ones_vars rep) (pos_r_batch one_edge_batch) (pos_b_batch one_edge_batch)
   = 59 / 2"
  "L_ae 1 10 (decode ones_vars rep) (neg_r_batch one_edge_batch) (neg_b_batch one_edge_batch)
   = 59 / 2"
  by (simp_all add: L_ae_def one_edge_batch_simps decode_ones_vars lessThan_nat_numeral
      lessThan_Suc)

text \<open>
  C5. The claim is that the joint loss of every batch equals
  \<open>L_trans + \<alpha> (L_ae(pos) + L_ae(neg)) + \<lambda> L_reg\<close> with \<open>\<alpha> = 1/2\<close> and \<open>\<lambda> = 1/1000\<close>. On the
  variables \<open>ones_vars\<close>, the batch \<open>one_edge_batch\<close> and a draw that keeps everything,
  \<open>L_trans\<close> is 1, both reconstruction losses are 59/2 and \<open>L_reg\<close> is 640, so that formula
  gives 1557/50 = 31.14; the node \<^verbatim>\<open>loss\<close> evaluates to 1541/50 = 30.82, which is
  \<open>1 + 59/2 + 320/1000\<close>.
\<close>

theorem joint_loss_at_ones_vars:
  "eval 10 ones_vars (train_feed one_edge_batch) keep_all loss = Inr (Scalar (1541 / 50)) \<and>
   L_trans 1 1
     (distance (normalized (int_embeddings ones_vars) (pos_h_batch one_edge_batch))
               (normalized (adv_embeddings ones_vars) (pos_t_batch one_edge_batch))
               (encode ones_vars (keep_all Dropout_pos) (pos_r_batch one_edge_batch)))
     (distance (normalized (int_embeddings ones_vars) (neg_h_batch one_edge_batch))
               (normalized (adv_embeddings ones_vars) (neg_t_batch one_edge_batch))
               (encode ones_vars (keep_all Dropout_neg) (neg_r_batch one_edge_batch)))
   + 1 / 2 * (L_ae 1 10
                (decode ones_vars (encode ones_vars (keep_all Dropout_pos)
                                     (pos_r_batch one_edge_batch)))
                (pos_r_batch one_edge_batch) (pos_b_batch one_edge_batch)
              + L_ae 1 10
                  (decode ones_vars (encode ones_vars (keep_all Dropout_neg)
                                       (neg_r_batch one_edge_batch)))
                  (neg_r_batch one_edge_batch) (neg_b_batch one_edge_batch))
   + 1 / 1000 * L_reg ones_vars
   = 1557 / 50"
proof -
  have t: "(0::nat) < 10" by simp
  show ?thesis
    by (simp only: eval_loss [OF ones_vars_ok t one_edge_batch_ok ones_vars_finite]
        L_trans_one_edge_batch L_ae_one_edge_batch L_reg_ones_vars) simp
qed

text \<open>So the value of the node is not the value of the claimed formula.\<close>

theorem joint_loss_at_ones_vars_witness:
  "eval 10 ones_vars (train_feed one_edge_batch) keep_all loss
   \<noteq> Inr (Scalar (L_trans 1 1
     (distance (normalized (int_embeddings ones_vars) (pos_h_batch one_edge_batch))
               (normalized (adv_embeddings ones_vars) (pos_t_batch one_edge_batch))
               (encode ones_vars (keep_all Dropout_pos) (pos_r_batch one_edge_batch)))
     (distance (normalized (int_embeddings ones_vars) (neg_h_batch one_edge_batch))
               (normalized (adv_embeddings ones_vars) (neg_t_batch one_edge_batch))
               (encode ones_vars (keep_all Dropout_neg) (neg_r_batch one_edge_batch)))
   + 1 / 2 * (L_ae 1 10
                (decode ones_vars (encode ones_vars (keep_all Dropout_pos)
                                     (pos_r_batch one_edge_batch)))
                (pos_r_batch one_edge_batch) (pos_b_batch one_edge_batch)
              + L_ae 1 10
                  (decode ones_vars (encode ones_vars (keep_all Dropout_neg)
                                       (neg_r_batch one_edge_batch)))
                  (neg_r_batch one_edge_batch) (neg_b_batch one_edge_batch))
   + 1 / 1000 * L_reg ones_vars))"
  using joint_loss_at_ones_vars by simp

text \<open>
  A warm-up step runs \<^verbatim>\<open>relation_optimizer\<close> and fetches \<^verbatim>\<open>relation_pos_r_loss\<close>. On
  well-formed variables and a well-formed warm-up batch it succeeds: the variables are
  updated by Adam with the gradient of the node \<^verbatim>\<open>relation_pos_r_loss\<close> for the four
  autoencoder tensors, and the value of that node,
  \<open>L_ae(pos) + 1/1000 \<sqdot> L_reg / 2\<close>, is added to the sum of losses of the epoch.
\<close>

lemma warm_up_step_value:
  assumes v: "variables_ok entity_total tag_total (fst state)" and t: "0 < tag_total"
      and b: "ae_batch_ok tag_total n (next_autoencoder_batch epoch i)"
  shows "warm_up_step tag_total grad next_autoencoder_batch draw epoch i (state, sum_loss)
         = Inr (apply_gradients learning_rate {Encoder_w, Decoder_w, Encoder_b, Decoder_b}
                  (grad relation_pos_r_loss (fst state)
                     (ae_feed (next_autoencoder_batch epoch i)) (draw epoch i))
                  state,
                sum_loss
                + (L_ae n tag_total
                     (decode (fst state)
                        (encode (fst state) (draw epoch i Dropout_pos)
                           (fst (next_autoencoder_batch epoch i))))
                     (fst (next_autoencoder_batch epoch i))
                     (snd (next_autoencoder_batch epoch i))
                   + 1 / 1000 * (L_reg (fst state) / 2)))"
  by (simp add: warm_up_step_def run_train_def relation_optimizer_def
      eval_relation_pos_r_loss [OF v t b] vars_of_relation_pos_r_loss pos_L_ae_def
      del: eval.simps)

text \<open>
  C7. The claim is that the objective of every warm-up step equals
  \<open>L_ae(pos) + \<lambda> L_reg\<close> with \<open>\<lambda> = 1/1000\<close>. On the variables \<open>ones_vars\<close> and the warm-up
  batch of \<open>same_ae_batch\<close>, with a draw that keeps everything, \<open>L_ae(pos)\<close> is 59/2 and
  \<open>L_reg\<close> is 640, so that formula gives 1507/50 = 30.14. A warm-up step on them, with any
  gradient function and any slots, differentiates the node \<^verbatim>\<open>relation_pos_r_loss\<close>, and
  the value of that node, which the step adds to the sum of losses, is
  1491/50 = 29.82, which is \<open>59/2 + 320/1000\<close>.
\<close>

theorem warm_up_step_at_ones_vars:
  "warm_up_step 10 grad same_ae_batch keep_all_runs epoch i ((ones_vars, slots), sum_loss)
   = Inr (apply_gradients learning_rate {Encoder_w, Decoder_w, Encoder_b, Decoder_b}
            (grad relation_pos_r_loss ones_vars (ae_feed (same_ae_batch epoch i)) keep_all)
            (ones_vars, slots),
          sum_loss + 1491 / 50) \<and>
   L_ae 1 10
     (decode ones_vars (encode ones_vars (keep_all Dropout_pos) (fst (same_ae_batch epoch i))))
     (fst (same_ae_batch epoch i)) (snd (same_ae_batch epoch i))
   + 1 / 1000 * L_reg ones_vars
   = 1507 / 50"
proof -
  have t: "(0::nat) < 10" by simp
  have v: "variables_ok 1 10 (fst (ones_vars, slots))"
    using ones_vars_ok by simp
  have b: "ae_batch_ok 10 1 (same_ae_batch epoch i)"
    using one_label_batch_ok by (simp add: same_ae_batch_def)
  note step = warm_up_step_value [where state = "(ones_vars, slots)"
      and next_autoencoder_batch = same_ae_batch and epoch = epoch and i = i
      and entity_total = 1 and tag_total = 10 and n = 1, OF v t b]
  show ?thesis
    by (simp add: step keep_all_runs_def same_ae_batch_def
        L_ae_one_edge_batch [unfolded One_nat_def] L_reg_ones_vars)
qed

text \<open>So the objective of the step does not have the value of the claimed formula.\<close>

theorem warm_up_step_at_ones_vars_witness:
  "\<exists>state c. warm_up_step 10 ones_grad same_ae_batch keep_all_runs 0 0
                ((ones_vars, initial_slots ones_vars), 0) = Inr (state, c) \<and>
     c \<noteq> L_ae 1 10
           (decode ones_vars (encode ones_vars (keep_all Dropout_pos) (fst (same_ae_batch 0 0))))
           (fst (same_ae_batch 0 0)) (snd (same_ae_batch 0 0))
         + 1 / 1000 * L_reg ones_vars"
proof -
  let ?claimed = "L_ae 1 10
           (decode ones_vars (encode ones_vars (keep_all Dropout_pos) (fst (same_ae_batch 0 0))))
           (fst (same_ae_batch 0 0)) (snd (same_ae_batch 0 0))
         + 1 / 1000 * L_reg ones_vars"
  let ?state = "apply_gradients learning_rate {Encoder_w, Decoder_w, Encoder_b, Decoder_b}
                  (ones_grad relation_pos_r_loss ones_vars (ae_feed (same_ae_batch 0 0)) keep_all)
                  (ones_vars, initial_slots ones_vars)"
  from warm_up_step_at_ones_vars [of ones_grad 0 0 "initial_slots ones_vars" 0]
  have run: "warm_up_step 10 ones_grad same_ae_batch keep_all_runs 0 0
               ((ones_vars, initial_slots ones_vars), 0) = Inr (?state, 0 + 1491 / 50)"
    and claimed: "?claimed = 1507 / 50"
    by blast+
  have "(0 + 1491 / 50 :: real) \<noteq> ?claimed"
    unfolding claimed by simp
  with run show ?thesis by blast
qed

subsection \<open>Optimizer steps\<close>

lemma apply_gradients_untouched:
  "Int_embeddings \<notin> touched \<Longrightarrow>
   int_embeddings (fst (apply_gradients lr touched g state)) = int_embeddings (fst state)"
  "Adv_embeddings \<notin> touched \<Longrightarrow>
   adv_embeddings (fst (apply_gradients lr touched g state)) = adv_embeddings (fst state)"
  by (simp_all add: apply_gradients_def Let_def split: prod.splits)

lemma run_train_relation_optimizer:
  assumes "run_train tag_total grad relation_optimizer loss_node state fd dr = Inr (state', c)"
  shows "int_embeddings (fst state') = int_embeddings (fst state) \<and>
         adv_embeddings (fst state') = adv_embeddings (fst state)"
proof -
  have "state' = apply_gradients learning_rate (vars_of relation_pos_r_loss)
                   (grad relation_pos_r_loss (fst state) fd dr) state"
    using assms
    by (auto simp: run_train_def relation_optimizer_def split: sum.splits tensor.splits)
  then show ?thesis
    by (simp add: apply_gradients_untouched vars_of_relation_pos_r_loss)
qed

lemma for_each_invariant:
  assumes "for_each xs body st = Inr st'" and "P st"
      and "\<And>x a a'. x \<in> set xs \<Longrightarrow> P a \<Longrightarrow> body x a = Inr a' \<Longrightarrow> P a'"
  shows "P st'"
  using assms
proof (induction xs arbitrary: st)
  case Nil
  then show ?case by simp
next
  case (Cons x xs)
  from Cons.prems(1) obtain a where a: "body x st = Inr a" and r: "for_each xs body a = Inr st'"
    by (auto split: sum.splits)
  have "P a" using Cons.prems(2,3) a by auto
  then show ?case using Cons.IH [OF r] Cons.prems(3) by auto
qed

lemma warm_up_step_frame:
  assumes "warm_up_step tag_total grad nb draw epoch i acc = Inr acc'"
  shows "int_embeddings (fst (fst acc')) = int_embeddings (fst (fst acc)) \<and>
         adv_embeddings (fst (fst acc')) = adv_embeddings (fst (fst acc))"
  using assms
  by (auto simp: warm_up_step_def split: prod.splits sum.splits
      dest!: run_train_relation_optimizer)

lemma warm_up_epoch_frame:
  assumes "warm_up_epoch tag_total grad nb draw num epoch acc = Inr acc'"
  shows "int_embeddings (fst (fst acc')) = int_embeddings (fst (fst acc)) \<and>
         adv_embeddings (fst (fst acc')) = adv_embeddings (fst (fst acc))"
proof -
  obtain state printed where acc: "acc = (state, printed)" by (cases acc)
  from assms obtain state' sum_loss where
    loop: "for_each [0..<total_batch num] (warm_up_step tag_total grad nb draw epoch) (state, 0)
           = Inr (state', sum_loss)"
    and acc': "acc' = (state', printed @ [sum_loss])"
    by (auto simp: warm_up_epoch_def acc split: sum.splits)
  have "int_embeddings (fst (fst (state', sum_loss))) = int_embeddings (fst state) \<and>
        adv_embeddings (fst (fst (state', sum_loss))) = adv_embeddings (fst state)"
    by (rule for_each_invariant [OF loop,
          where P = "\<lambda>a. int_embeddings (fst (fst a)) = int_embeddings (fst state) \<and>
                          adv_embeddings (fst (fst a)) = adv_embeddings (fst state)"])
       (auto dest!: warm_up_step_frame)
  then show ?thesis by (simp add: acc acc')
qed

lemma warm_up_frame:
  assumes "warm_up tag_total grad nb draw num state = Inr (state', printed)"
  shows "int_embeddings (fst state') = int_embeddings (fst state) \<and>
         adv_embeddings (fst state') = adv_embeddings (fst state)"
proof -
  have "int_embeddings (fst (fst (state', printed))) = int_embeddings (fst state) \<and>
        adv_embeddings (fst (fst (state', printed))) = adv_embeddings (fst state)"
    by (rule for_each_invariant [OF assms [unfolded warm_up_def],
          where P = "\<lambda>a. int_embeddings (fst (fst a)) = int_embeddings (fst state) \<and>
                          adv_embeddings (fst (fst a)) = adv_embeddings (fst state)"])
       (auto dest!: warm_up_epoch_frame)
  then show ?thesis by simp
qed


text \<open>A warm-up run on well-formed batches does not fail, and keeps the shapes.\<close>

lemma adam_vec_length: "length (fst (adam_vec lr_t x m v g)) = length x"
  by (simp add: adam_vec_def Let_def)

lemma adam_mat_shape: "has_shape r c x \<Longrightarrow> has_shape r c (fst (adam_mat lr_t x m v g))"
  by (simp add: adam_mat_def Let_def has_shape_def list_all_length adam_vec_length)

lemma apply_gradients_ok:
  assumes "variables_ok entity_total tag_total (fst state)"
  shows "variables_ok entity_total tag_total (fst (apply_gradients lr touched g state))"
  using assms
  by (cases state)
     (simp add: apply_gradients_def Let_def variables_ok_def adam_mat_shape adam_vec_length)

lemma run_train_succeeds:
  assumes v: "variables_ok entity_total tag_total (fst state)" and t: "0 < tag_total"
      and b: "ae_batch_ok tag_total n batch"
  shows "\<exists>state' c.
           run_train tag_total grad relation_optimizer relation_pos_r_loss state
             (ae_feed batch) dr = Inr (state', c) \<and>
           variables_ok entity_total tag_total (fst state')"
  using apply_gradients_ok [OF v]
  by (simp add: run_train_def relation_optimizer_def eval_relation_pos_r_loss [OF v t b])

lemma for_each_succeeds:
  assumes "P st"
      and "\<And>x a. x \<in> set xs \<Longrightarrow> P a \<Longrightarrow> \<exists>a'. body x a = Inr a' \<and> P a'"
  shows "\<exists>st'. for_each xs body st = Inr st' \<and> P st'"
  using assms
proof (induction xs arbitrary: st)
  case Nil
  then show ?case by simp
next
  case (Cons x xs)
  from Cons.prems obtain a where a: "body x st = Inr a" "P a" by auto
  from Cons.IH [OF a(2)] Cons.prems(2) show ?case using a(1) by auto
qed

lemma warm_up_succeeds:
  assumes v: "variables_ok entity_total tag_total (fst state)" and t: "0 < tag_total"
      and b: "\<And>epoch i. \<exists>n. ae_batch_ok tag_total n (nb epoch i)"
  shows "\<exists>state' printed. warm_up tag_total grad nb draw num state = Inr (state', printed)"
proof -
  let ?P = "\<lambda>a. variables_ok entity_total tag_total (fst (fst a))"
  have step: "\<exists>a'. warm_up_step tag_total grad nb draw epoch i a = Inr a' \<and> ?P a'"
    if "?P a" for epoch i a
  proof -
    obtain n where n: "ae_batch_ok tag_total n (nb epoch i)" using b by blast
    obtain st sum_loss where a: "a = (st, sum_loss)" by (cases a)
    from that have "variables_ok entity_total tag_total (fst st)" by (simp add: a)
    from run_train_succeeds [OF this t n, of grad "draw epoch i"]
    show ?thesis by (auto simp: warm_up_step_def a)
  qed
  have epoch: "\<exists>a'. warm_up_epoch tag_total grad nb draw num epoch a = Inr a' \<and> ?P a'"
    if "?P a" for epoch a
  proof -
    obtain st printed where a: "a = (st, printed)" by (cases a)
    have "?P (st, 0::real)" using that by (simp add: a)
    from for_each_succeeds [of ?P "(st, 0::real)" "[0..<total_batch num]"
           "warm_up_step tag_total grad nb draw epoch", OF this step]
    show ?thesis by (auto simp: warm_up_epoch_def a)
  qed
  have "?P (state, [])" using v by simp
  from for_each_succeeds [of ?P "(state, [])" "[0..<warm_up_epochs]"
         "warm_up_epoch tag_total grad nb draw num", OF this epoch]
  show ?thesis by (auto simp: warm_up_def)
qed


subsection \<open>What a node's value depends on\<close>

lemma eval_depends:
  assumes "\<And>v. v \<in> vars_of n \<Longrightarrow> var_tensor s v = var_tensor s' v"
      and "\<And>p. p \<in> placeholders_of n \<Longrightarrow> fd p = fd' p"
      and "\<And>op. op \<in> dropouts_of n \<Longrightarrow> dr op = dr' op"
  shows "eval tag_total s fd dr n = eval tag_total s' fd' dr' n"
  using assms by (induction n) (simp_all add: read_placeholder_def)

lemma warm_up_objective_ignores_tables:
  "eval tag_total (s\<lparr>int_embeddings := a, adv_embeddings := b\<rparr>) fd dr relation_pos_r_loss
   = eval tag_total s fd dr relation_pos_r_loss"
  by (rule eval_depends) (auto simp: vars_of_relation_pos_r_loss)

lemma ones_step_changes_encoder_b:
  "encoder_b (fst (apply_gradients learning_rate (vars_of relation_pos_r_loss)
                     (ones_grad relation_pos_r_loss ones_vars fd dr)
                     (ones_vars, initial_slots ones_vars))) ! 0 < 0"
proof -
  have "0 < sqrt (1 / 1000 :: real)" by simp
  then have "0 < learning_rate * sqrt (1 - beta2) / (1 - beta1)
               * (1 / 10) / (sqrt (1 / 1000) + adam_epsilon)"
    by (simp add: learning_rate_def beta1_def beta2_def adam_epsilon_def add_pos_pos)
  then show ?thesis
    by (simp add: apply_gradients_def Let_def vars_of_relation_pos_r_loss adam_vec_def
        ones_grad_def ones_vars_def initial_slots_def beta1_def beta2_def nth_append)
qed

lemma same_ae_batch_ok: "\<exists>n. ae_batch_ok 10 n (same_ae_batch epoch i)"
  using one_label_batch_ok by (auto simp: same_ae_batch_def)

text \<open>
  C10. A run of the warm-up training operation that does not fail leaves the two
  embedding tables as they were, and so does the whole warm-up loop: the objective's
  value does not depend on the tables, the tables get no gradient, and only the four
  autoencoder tensors are updated.
\<close>

theorem warm_up_keeps_embedding_tables:
  "(\<forall>state' c.
      run_train tag_total grad relation_optimizer relation_pos_r_loss state fd dr
        = Inr (state', c) \<longrightarrow>
      int_embeddings (fst state') = int_embeddings (fst state) \<and>
      adv_embeddings (fst state') = adv_embeddings (fst state)) \<and>
   (\<forall>state' printed.
      warm_up tag_total grad next_autoencoder_batch draw num_examples state
        = Inr (state', printed) \<longrightarrow>
      int_embeddings (fst state') = int_embeddings (fst state) \<and>
      adv_embeddings (fst state') = adv_embeddings (fst state)) \<and>
   (\<forall>a b. eval tag_total ((fst state)\<lparr>int_embeddings := a, adv_embeddings := b\<rparr>) fd dr
            relation_pos_r_loss
          = eval tag_total (fst state) fd dr relation_pos_r_loss)"
  using run_train_relation_optimizer
      [where tag_total = tag_total and grad = grad and loss_node = relation_pos_r_loss
         and state = state and fd = fd and dr = dr]
    warm_up_frame
      [where tag_total = tag_total and grad = grad and nb = next_autoencoder_batch
         and draw = draw and num = num_examples and state = state]
    warm_up_objective_ignores_tables
      [where tag_total = tag_total and s = "fst state" and fd = fd and dr = dr]
  by blast

theorem warm_up_keeps_embedding_tables_witness:
  "(\<exists>state' c.
      run_train 10 ones_grad relation_optimizer relation_pos_r_loss
        (ones_vars, initial_slots ones_vars) (ae_feed (same_ae_batch 0 0)) keep_all
        = Inr (state', c) \<and>
      int_embeddings (fst state') = int_embeddings ones_vars \<and>
      adv_embeddings (fst state') = adv_embeddings ones_vars \<and>
      encoder_b (fst state') \<noteq> encoder_b ones_vars) \<and>
   (\<exists>state' printed.
      warm_up 10 ones_grad same_ae_batch keep_all_runs 100 (ones_vars, initial_slots ones_vars)
        = Inr (state', printed) \<and>
      int_embeddings (fst state') = int_embeddings ones_vars \<and>
      adv_embeddings (fst state') = adv_embeddings ones_vars)"
proof -
  let ?st = "(ones_vars, initial_slots ones_vars)"
  let ?fd = "ae_feed (same_ae_batch 0 0)"
  have v: "variables_ok 1 10 (fst ?st)" using ones_vars_ok by simp
  have t: "(0::nat) < 10" by simp
  note frame = warm_up_keeps_embedding_tables
    [where tag_total = 10 and grad = ones_grad and state = ?st and fd = ?fd and dr = keep_all
       and next_autoencoder_batch = same_ae_batch and draw = keep_all_runs
       and num_examples = 100]
  obtain n where n: "ae_batch_ok 10 n (same_ae_batch 0 0)"
    using same_ae_batch_ok by blast
  from run_train_succeeds [OF v t n, where grad = ones_grad and dr = keep_all]
  obtain state' c where
    run: "run_train 10 ones_grad relation_optimizer relation_pos_r_loss ?st ?fd keep_all
          = Inr (state', c)"
    by blast
  then have "state' = apply_gradients learning_rate (vars_of relation_pos_r_loss)
                        (ones_grad relation_pos_r_loss ones_vars ?fd keep_all) ?st"
    by (auto simp: run_train_def relation_optimizer_def split: sum.splits tensor.splits)
  then have "encoder_b (fst state') ! 0 < 0"
    using ones_step_changes_encoder_b by simp
  moreover have "encoder_b ones_vars ! 0 = 0"
    by (simp add: ones_vars_def)
  ultimately have changed: "encoder_b (fst state') \<noteq> encoder_b ones_vars"
    by auto
  have "\<And>epoch i. \<exists>n. ae_batch_ok 10 n (same_ae_batch epoch i)"
    by (rule same_ae_batch_ok)
  from warm_up_succeeds
    [where nb = same_ae_batch and grad = ones_grad and draw = keep_all_runs and num = 100,
     OF v t this]
  obtain state'' printed where
    loop: "warm_up 10 ones_grad same_ae_batch keep_all_runs 100 ?st = Inr (state'', printed)"
    by blast
  from frame run loop changed show ?thesis
    by (metis fst_conv)
qed

subsection \<open>The top-k indices of a row\<close>

lemma top_k_row_distinct: "distinct (top_k_row k xs)"
  by (simp add: top_k_row_def)

lemma top_k_row_bound: "j \<in> set (top_k_row k xs) \<Longrightarrow> j < length xs"
  using set_take_subset [of k "sort_key (\<lambda>i. - (xs ! i)) [0..<length xs]"]
  by (auto simp: top_k_row_def)

lemma top_k_row_length: "length (top_k_row k xs) = min k (length xs)"
  by (simp add: top_k_row_def min.commute)

lemma top_k_row_mono: "k \<le> k' \<Longrightarrow> set (top_k_row k xs) \<subseteq> set (top_k_row k' xs)"
  by (simp add: top_k_row_def set_take_subset_set_take)

text \<open>No label outside the top \<open>k\<close> has a higher score than a label inside.\<close>

lemma top_k_row_ranked:
  assumes a: "a \<in> set (top_k_row k xs)" and b: "b < length xs" "b \<notin> set (top_k_row k xs)"
  shows "xs ! b \<le> xs ! a"
proof -
  let ?key = "\<lambda>i. - (xs ! i)"
  let ?l = "sort_key ?key [0..<length xs]"
  have sorted: "sorted (map ?key ?l)" by (rule sorted_sort_key)
  from a have "a \<in> set (take k ?l)" by (simp add: top_k_row_def)
  then obtain p where p: "p < k" "p < length ?l" "?l ! p = a"
    unfolding in_set_conv_nth by auto
  have "b \<in> set ?l" using b(1) by simp
  then obtain q where q: "q < length ?l" "?l ! q = b"
    unfolding in_set_conv_nth by blast
  have "k \<le> q"
  proof (rule ccontr)
    assume "\<not> k \<le> q"
    then have "b \<in> set (take k ?l)" using q by (auto simp: in_set_conv_nth intro!: exI [of _ q])
    then show False using b(2) by (simp add: top_k_row_def)
  qed
  then have "p \<le> q" using p(1) by simp
  then have "map ?key ?l ! p \<le> map ?key ?l ! q"
    using sorted q(1) by (simp add: sorted_iff_nth_mono del: length_sort)
  then show ?thesis using p q by simp
qed

subsection \<open>The hit count of a batch\<close>

lemma one_hot_sum:
  assumes "j < depth" "distinct ms"
  shows "sum_list (map (\<lambda>m. one_hot_row depth m ! j) ms) = (if j \<in> set ms then 1 else 0)"
  using assms by (induction ms) (auto simp: one_hot_row_def)

lemma indicator_sum:
  fixes g :: "nat \<Rightarrow> real"
  assumes "distinct ms" "set ms \<subseteq> {..<n}"
  shows "(\<Sum>j<n. (if j \<in> set ms then 1 else 0) * g j) = sum_list (map g ms)"
proof -
  have "(\<Sum>j<n. (if j \<in> set ms then 1 else 0) * g j) = (\<Sum>j\<in>{..<n} \<inter> set ms. g j)"
    by (simp add: sum.inter_restrict if_distrib [of "\<lambda>c. c * _"] cong: if_cong)
  also have "{..<n} \<inter> set ms = set ms" using assms(2) by auto
  also have "(\<Sum>j\<in>set ms. g j) = sum_list (map g ms)"
    using assms(1) by (simp add: sum_list_distinct_conv_sum_set)
  finally show ?thesis .
qed

lemma multi_hot_sum:
  assumes "list_all (\<lambda>x. x = 0 \<or> x = 1) r" "set ms \<subseteq> {..<length r}"
  shows "sum_list (map (\<lambda>j. r ! j) ms) = real (length (filter (\<lambda>j. r ! j = 1) ms))"
  using assms(2)
proof (induction ms)
  case Nil
  then show ?case by simp
next
  case (Cons m ms)
  then have "r ! m = 0 \<or> r ! m = 1" using assms(1) by (simp add: list_all_length)
  then show ?case using Cons by auto
qed

lemma multi_hot_row_sum:
  "list_all (\<lambda>x. x = 0 \<or> x = 1) r \<Longrightarrow> sum_list r = real (length (filter (\<lambda>x. x = 1) r))"
  by (induction r) auto

lemma test_feed_simps:
  "test_feed b Pos_h = Some (Ids (test_h_batch b))"
  "test_feed b Pos_t = Some (Ids (test_t_batch b))"
  "test_feed b Pos_r = Some (Matrix (test_r_batch b))"
  by (simp_all add: test_feed_def)

lemma test_batch_okD:
  assumes "test_batch_ok entity_total tag_total n b"
  shows "ids_ok entity_total n (test_h_batch b)" "ids_ok entity_total n (test_t_batch b)"
        "has_shape n tag_total (test_r_batch b)" "multi_hot (test_r_batch b)"
  using assms by (simp_all add: test_batch_ok_def)

lemma eval_pos_r_minus_dec:
  assumes v: "variables_ok entity_total tag_total s"
      and b: "test_batch_ok entity_total tag_total n b"
  shows "eval tag_total s (test_feed b) dr pos_r_minus_dec
         = Inr (Matrix (mat_of n tag_total (predicted s b)))"
proof -
  note ok = test_batch_okD [OF b]
  have w: "has_shape rep_size tag_total (decoder_w s)" and bd: "length (decoder_b s) = tag_total"
    using v by (simp_all add: variables_ok_def)
  have len: "length (decoder_w s) = rep_size"
    using w by (simp add: has_shape_def)
  have r: "0 < rep_size" by (simp add: rep_size_def)
  have h: "eval tag_total s (test_feed b) dr pos_h_e
           = Inr (Matrix (mat_of n rep_size (embedding (int_embeddings s) (test_h_batch b))))"
    unfolding lookup_nodes
    by (rule eval_head [where fd = "test_feed b" and p = Pos_h, OF v test_feed_simps(1) _ ok(1)])
       simp
  have t: "eval tag_total s (test_feed b) dr pos_t_e
           = Inr (Matrix (mat_of n rep_size (embedding (adv_embeddings s) (test_t_batch b))))"
    unfolding lookup_nodes
    by (rule eval_tail [where fd = "test_feed b" and p = Pos_t, OF v test_feed_simps(2) _ ok(2)])
       simp
  show ?thesis
    unfolding pos_r_minus_dec_def pos_r_minus_def
    by (simp only: eval.simps(1,6,7,8,12) var_tensor.simps h t tf_bind2_Inr tf_bind_Inr
        binary_op_matrix matmul_matrix [OF w r] binary_op_vector [OF bd] map_tensor_matrix
        predicted_def [abs_def] len)
qed

lemma pred_matrix:
  "map (\<lambda>vs. map (\<lambda>j. sum_list (map (\<lambda>v. v ! j) vs)) [0..<c])
       (map (map (one_hot_row c)) (map (top_k_row k) (mat_of n c f)))
   = mat_of n c (\<lambda>i j. if j \<in> set (top_k_row k (map (f i) [0..<c])) then 1 else 0)"
  by (simp add: mat_of_def comp_def one_hot_sum top_k_row_distinct)

lemma eval_hit_node:
  assumes v: "variables_ok entity_total tag_total s"
      and b: "test_batch_ok entity_total tag_total n b"
      and k: "k \<le> tag_total"
  shows "eval tag_total s (test_feed b) dr (hit_node tag_total k)
         = Inr (Scalar (real (batch_hits tag_total k s b)))"
proof -
  note ok = test_batch_okD [OF b]
  let ?top = "\<lambda>i. top_k_row k (map (predicted s b i) [0..<tag_total])"
  let ?r = "test_r_batch b"
  have n: "length ?r = n" using ok(3) by (simp add: has_shape_def)
  have cols: "list_all (\<lambda>row. k \<le> length row) (mat_of n tag_total (predicted s b))"
    using k by (simp add: mat_of_def list_all_iff)
  have pr: "eval tag_total s (test_feed b) dr pos_r
            = Inr (Matrix (mat_of n tag_total (\<lambda>i j. ?r ! i ! j)))"
    unfolding pos_r_def
    by (rule eval_placeholder_matrix [where fd = "test_feed b" and p = Pos_r,
          OF test_feed_simps(3) _ ok(3)]) simp
  have "eval tag_total s (test_feed b) dr (hit_node tag_total k)
        = Inr (Scalar (\<Sum>i<n. \<Sum>j<tag_total. (if j \<in> set (?top i) then 1 else 0) * ?r ! i ! j))"
    unfolding hit_node_def Let_def
    by (simp only: eval.simps(9,16,17,18,19) eval_pos_r_minus_dec [OF v b] pr tf_bind_Inr
        tf_bind2_Inr top_k_indices.simps cols if_True one_hot.simps reduce_sum_1.simps if_False
        pred_matrix binary_op_matrix reduce_sum_matrix)
  also have "(\<Sum>i<n. \<Sum>j<tag_total. (if j \<in> set (?top i) then 1 else 0) * ?r ! i ! j)
             = (\<Sum>i<n. real (true_in_top k (map (predicted s b i) [0..<tag_total]) (?r ! i)))"
  proof (rule sum.cong [OF refl])
    fix i assume "i \<in> {..<n}"
    then have i: "i < length ?r" using n by simp
    have row: "length (?r ! i) = tag_total" "list_all (\<lambda>x. x = 0 \<or> x = 1) (?r ! i)"
      using ok(3,4) i by (simp_all add: has_shape_def multi_hot_def list_all_length)
    have sub: "set (?top i) \<subseteq> {..<tag_total}"
      using top_k_row_bound [of _ k "map (predicted s b i) [0..<tag_total]"] by auto
    have "(\<Sum>j<tag_total. (if j \<in> set (?top i) then 1 else 0) * ?r ! i ! j)
          = sum_list (map (\<lambda>j. ?r ! i ! j) (?top i))"
      by (rule indicator_sum [OF top_k_row_distinct sub])
    also have "\<dots> = real (length (filter (\<lambda>j. ?r ! i ! j = 1) (?top i)))"
      by (rule multi_hot_sum [OF row(2)]) (use sub row(1) in simp)
    finally show "(\<Sum>j<tag_total. (if j \<in> set (?top i) then 1 else 0) * ?r ! i ! j)
                  = real (true_in_top k (map (predicted s b i) [0..<tag_total]) (?r ! i))"
      by (simp add: true_in_top_def)
  qed
  also have "\<dots> = real (batch_hits tag_total k s b)"
    by (simp add: batch_hits_def n)
  finally show ?thesis .
qed

lemma eval_relation_sum:
  assumes b: "test_batch_ok entity_total tag_total n b"
  shows "eval tag_total s (test_feed b) dr relation_sum = Inr (Scalar (real (batch_true b)))"
proof -
  note ok = test_batch_okD [OF b]
  let ?r = "test_r_batch b"
  have fits: "feed_fits tag_total Pos_r (Matrix ?r)"
    using ok(3) by (simp add: has_shape_def)
  have "sum_list (concat ?r) = sum_list (map sum_list ?r)"
    by (rule sum_list_concat_rows)
  also have "\<dots> = sum_list (map (\<lambda>row. real (length (filter (\<lambda>x. x = 1) row))) ?r)"
    using ok(4) by (intro arg_cong [of _ _ sum_list] map_cong refl multi_hot_row_sum)
      (simp add: multi_hot_def list_all_iff)
  also have "\<dots> = real (batch_true b)"
    by (simp add: batch_true_def sum_list_map_nth)
  finally show ?thesis
    using fits
    by (simp add: relation_sum_def pos_r_def read_placeholder_def test_feed_simps reduce_sum_def)
qed

subsection \<open>The evaluation loop\<close>

lemma hits_nodes: "hits tag_total = Inr hit_nodes \<longleftrightarrow>
  10 \<le> tag_total \<and> hit_nodes = [hit_node tag_total 1, hit_node tag_total 5, hit_node tag_total 10]"
  by (auto simp: hits_def hits_k_def)

lemma hits_too_few: "tag_total < 10 \<Longrightarrow> hits tag_total = Inl TooFewColumns"
  by (simp add: hits_def hits_k_def)

lemma fetch_scalar_value:
  "eval tag_total s fd dr n = Inr (Scalar x) \<Longrightarrow> fetch_scalar tag_total s fd dr n = Inr x"
  by (simp add: fetch_scalar_def)

lemma run_eval_value:
  assumes v: "variables_ok entity_total tag_total s"
      and b: "test_batch_ok entity_total tag_total n b"
      and t: "10 \<le> tag_total"
  shows "run_eval tag_total s [hit_node tag_total 1, hit_node tag_total 5, hit_node tag_total 10]
           (test_feed b) dr
         = Inr ([real (batch_hits tag_total 1 s b), real (batch_hits tag_total 5 s b),
                 real (batch_hits tag_total 10 s b)], real (batch_true b))"
proof -
  have k: "1 \<le> tag_total" "5 \<le> tag_total" "10 \<le> tag_total" using t by simp_all
  show ?thesis
    by (simp only: run_eval_def fetch_all.simps sum.case
        fetch_scalar_value [OF eval_hit_node [OF v b k(1)]]
        fetch_scalar_value [OF eval_hit_node [OF v b k(2)]]
        fetch_scalar_value [OF eval_hit_node [OF v b k(3)]]
        fetch_scalar_value [OF eval_relation_sum [OF b]])
qed

lemma for_each_snoc:
  "for_each (xs @ [x]) body st
   = (case for_each xs body st of Inl e \<Rightarrow> Inl e | Inr st' \<Rightarrow> body x st')"
  by (induction xs arbitrary: st) (auto split: sum.splits)

lemma eval_loop_value:
  assumes v: "variables_ok entity_total tag_total s"
      and t: "10 \<le> tag_total"
      and b: "test_batches_ok entity_total tag_total next_test_batch batches"
  shows "for_each [0..<batches]
           (eval_step tag_total s
              [hit_node tag_total 1, hit_node tag_total 5, hit_node tag_total 10]
              next_test_batch draw)
           (replicate (length hits_k) 0, 0)
         = Inr ([real (\<Sum>i<batches. batch_hits tag_total 1 s (next_test_batch i)),
                 real (\<Sum>i<batches. batch_hits tag_total 5 s (next_test_batch i)),
                 real (\<Sum>i<batches. batch_hits tag_total 10 s (next_test_batch i))],
                real (\<Sum>i<batches. batch_true (next_test_batch i)))"
proof -
  define nodes where
    "nodes = [hit_node tag_total 1, hit_node tag_total 5, hit_node tag_total 10]"
  define H where "H k m = (\<Sum>i<m. batch_hits tag_total k s (next_test_batch i))" for k m
  define C where "C m = (\<Sum>i<m. batch_true (next_test_batch i))" for m
  have "for_each [0..<batches] (eval_step tag_total s nodes next_test_batch draw)
          ([0, 0, 0], 0)
        = Inr ([real (H 1 batches), real (H 5 batches), real (H 10 batches)], real (C batches))"
    using b
  proof (induction batches)
    case 0
    then show ?case by (simp add: H_def C_def)
  next
    case (Suc m)
    then have prev: "test_batches_ok entity_total tag_total next_test_batch m"
      and last: "test_batch_ok entity_total tag_total
                   (length (test_r_batch (next_test_batch m))) (next_test_batch m)"
      by (simp_all add: test_batches_ok_def)
    have step: "eval_step tag_total s nodes next_test_batch draw m
                  ([real (H 1 m), real (H 5 m), real (H 10 m)], real (C m))
                = Inr ([real (H 1 (Suc m)), real (H 5 (Suc m)), real (H 10 (Suc m))],
                       real (C (Suc m)))"
      unfolding eval_step_def nodes_def
      by (simp only: run_eval_value [OF v last t] prod.case sum.case)
         (simp add: H_def C_def)
    have "for_each [0..<Suc m] (eval_step tag_total s nodes next_test_batch draw)
            ([0, 0, 0], 0)
          = (case for_each [0..<m] (eval_step tag_total s nodes next_test_batch draw)
                    ([0, 0, 0], 0) of
               Inl e \<Rightarrow> Inl e
             | Inr st' \<Rightarrow> eval_step tag_total s nodes next_test_batch draw m st')"
      by (simp only: upt_Suc_append [OF le0] for_each_snoc)
    then show ?case
      by (simp only: Suc.IH [OF prev] sum.case step)
  qed
  moreover have "replicate (length hits_k) (0::real) = [0, 0, 0]"
    by (simp add: hits_k_def numeral_3_eq_3)
  ultimately show ?thesis
    by (simp only: nodes_def H_def C_def)
qed

lemma evaluate_value:
  assumes v: "variables_ok entity_total tag_total s"
      and t: "10 \<le> tag_total"
      and b: "test_batches_ok entity_total tag_total next_test_batch
                (test_total_batch num_examples)"
  shows "evaluate tag_total s next_test_batch draw num_examples
         = divide_hits (0 < test_total_batch num_examples)
             [real (\<Sum>i<test_total_batch num_examples.
                      batch_hits tag_total 1 s (next_test_batch i)),
              real (\<Sum>i<test_total_batch num_examples.
                      batch_hits tag_total 5 s (next_test_batch i)),
              real (\<Sum>i<test_total_batch num_examples.
                      batch_hits tag_total 10 s (next_test_batch i))]
             (real (\<Sum>i<test_total_batch num_examples. batch_true (next_test_batch i)))"
proof -
  have h: "hits tag_total
           = Inr [hit_node tag_total 1, hit_node tag_total 5, hit_node tag_total 10]"
    using t by (simp add: hits_nodes)
  show ?thesis
    unfolding evaluate_def
    by (simp only: h sum.case eval_loop_value [OF v t b] prod.case)
qed

lemma filter_take_mono:
  "k \<le> k' \<Longrightarrow> length (filter P (take k xs)) \<le> length (filter P (take k' xs))"
proof -
  assume "k \<le> k'"
  then have "take k' xs = take k xs @ take (k' - k) (drop k xs)"
    by (metis le_add_diff_inverse take_add)
  then show ?thesis by simp
qed

lemma true_in_top_mono: "k \<le> k' \<Longrightarrow> true_in_top k scores labels \<le> true_in_top k' scores labels"
  by (simp add: true_in_top_def top_k_row_def filter_take_mono)

lemma batch_hits_mono: "k \<le> k' \<Longrightarrow> batch_hits tag_total k s b \<le> batch_hits tag_total k' s b"
  by (simp add: batch_hits_def sum_mono true_in_top_mono)

lemma Hits_at_mono:
  assumes "k \<le> k'"
  shows "Hits_at tag_total k s next_test_batch batches
         \<le> Hits_at tag_total k' s next_test_batch batches"
proof -
  have "(\<Sum>i<batches. batch_hits tag_total k s (next_test_batch i))
        \<le> (\<Sum>i<batches. batch_hits tag_total k' s (next_test_batch i))"
    by (rule sum_mono) (rule batch_hits_mono [OF assms])
  then have "real (\<Sum>i<batches. batch_hits tag_total k s (next_test_batch i))
             \<le> real (\<Sum>i<batches. batch_hits tag_total k' s (next_test_batch i))"
    by (simp only: of_nat_le_iff)
  then show ?thesis
    unfolding Hits_at_def by (rule divide_right_mono) (rule of_nat_0_le_iff)
qed

lemma true_in_top_le:
  assumes "length scores = length labels"
  shows "true_in_top k scores labels \<le> length (filter (\<lambda>x. x = 1) labels)"
proof -
  let ?ms = "top_k_row k scores"
  have "length (filter (\<lambda>j. labels ! j = 1) ?ms) = card {j \<in> set ?ms. labels ! j = 1}"
    using top_k_row_distinct [of k scores] by (simp add: distinct_length_filter Int_def conj_commute)
  also have "\<dots> \<le> card {j. j < length labels \<and> labels ! j = 1}"
    using top_k_row_bound [of _ k scores] assms by (intro card_mono) auto
  also have "\<dots> = length (filter (\<lambda>x. x = 1) labels)"
    by (simp add: length_filter_conv_card)
  finally show ?thesis by (simp add: true_in_top_def)
qed

lemma batch_hits_le:
  assumes "has_shape n tag_total (test_r_batch b)"
  shows "batch_hits tag_total k s b \<le> batch_true b"
  unfolding batch_hits_def batch_true_def
proof (rule sum_mono)
  fix i assume "i \<in> {..<length (test_r_batch b)}"
  then have "length (test_r_batch b ! i) = tag_total"
    using assms by (simp add: has_shape_def list_all_length)
  then show "true_in_top k (map (predicted s b i) [0..<tag_total]) (test_r_batch b ! i)
             \<le> length (filter (\<lambda>x. x = 1) (test_r_batch b ! i))"
    by (intro true_in_top_le) simp
qed

lemma total_hits_le:
  assumes "test_batches_ok entity_total tag_total next_test_batch batches"
  shows "(\<Sum>i<batches. batch_hits tag_total k s (next_test_batch i))
         \<le> (\<Sum>i<batches. batch_true (next_test_batch i))"
proof (rule sum_mono)
  fix i assume "i \<in> {..<batches}"
  then have "has_shape (length (test_r_batch (next_test_batch i))) tag_total
               (test_r_batch (next_test_batch i))"
    using assms by (simp add: test_batches_ok_def list_all_iff test_batch_ok_def)
  then show "batch_hits tag_total k s (next_test_batch i) \<le> batch_true (next_test_batch i)"
    by (rule batch_hits_le)
qed

subsection \<open>Evaluation and dropout\<close>

lemma eval_nodes_dropouts:
  "dropouts_of pos_r_minus_dec = {}"
  "dropouts_of (hit_node tag_total k) = {}"
  "dropouts_of relation_sum = {}"
  by (simp_all add: pos_r_minus_dec_def pos_r_minus_def lookup_nodes hit_node_def Let_def
      relation_sum_def pos_r_def)

lemma vars_of_pos_r_minus_dec:
  "vars_of pos_r_minus_dec = {Int_embeddings, Adv_embeddings, Decoder_w, Decoder_b}"
  by (auto simp: pos_r_minus_dec_def pos_r_minus_def lookup_nodes)

lemma eval_draw_free:
  "dropouts_of n = {} \<Longrightarrow> eval tag_total s fd dr n = eval tag_total s fd dr' n"
  by (rule eval_depends) simp_all

lemma fetch_scalar_draw_free:
  "dropouts_of n = {} \<Longrightarrow>
   fetch_scalar tag_total s fd dr n = fetch_scalar tag_total s fd dr' n"
  using eval_draw_free [of n tag_total s fd dr dr'] by (simp add: fetch_scalar_def)

lemma fetch_all_draw_free:
  "(\<And>n. n \<in> set ns \<Longrightarrow> dropouts_of n = {}) \<Longrightarrow>
   fetch_all tag_total s fd dr ns = fetch_all tag_total s fd dr' ns"
proof (induction ns)
  case Nil
  then show ?case by simp
next
  case (Cons n ns)
  then have "fetch_scalar tag_total s fd dr n = fetch_scalar tag_total s fd dr' n"
    and "fetch_all tag_total s fd dr ns = fetch_all tag_total s fd dr' ns"
    by (simp_all add: fetch_scalar_draw_free)
  then show ?case by (simp only: fetch_all.simps)
qed

lemma run_eval_draw_free:
  assumes "hits tag_total = Inr hit_nodes"
  shows "run_eval tag_total s hit_nodes fd dr = run_eval tag_total s hit_nodes fd dr'"
proof -
  have "hit_nodes = [hit_node tag_total 1, hit_node tag_total 5, hit_node tag_total 10]"
    using assms by (simp add: hits_nodes)
  then have "fetch_all tag_total s fd dr hit_nodes = fetch_all tag_total s fd dr' hit_nodes"
    by (intro fetch_all_draw_free) (auto simp: eval_nodes_dropouts)
  moreover have "fetch_scalar tag_total s fd dr relation_sum
                 = fetch_scalar tag_total s fd dr' relation_sum"
    by (rule fetch_scalar_draw_free) (rule eval_nodes_dropouts)
  ultimately show ?thesis by (simp only: run_eval_def)
qed

lemma for_each_cong:
  "(\<And>x st. x \<in> set xs \<Longrightarrow> f x st = g x st) \<Longrightarrow> for_each xs f st = for_each xs g st"
  by (induction xs arbitrary: st) (auto split: sum.splits)

lemma eval_step_draw_free:
  assumes "hits tag_total = Inr hit_nodes"
  shows "eval_step tag_total s hit_nodes next_test_batch draw i acc
         = eval_step tag_total s hit_nodes next_test_batch draw' i acc"
  unfolding eval_step_def
  by (subst run_eval_draw_free [OF assms, where dr = "draw i" and dr' = "draw' i"]) (rule refl)

lemma evaluate_draw_free:
  "evaluate tag_total s next_test_batch draw num_examples
   = evaluate tag_total s next_test_batch draw' num_examples"
proof (cases "hits tag_total")
  case (Inl e)
  then show ?thesis by (simp add: evaluate_def)
next
  case (Inr hit_nodes)
  have "for_each [0..<test_total_batch num_examples]
          (eval_step tag_total s hit_nodes next_test_batch draw) st
        = for_each [0..<test_total_batch num_examples]
            (eval_step tag_total s hit_nodes next_test_batch draw') st" for st
    by (rule for_each_cong) (rule eval_step_draw_free [OF Inr])
  then show ?thesis by (simp add: evaluate_def Inr)
qed

subsection \<open>A concrete evaluation\<close>

lemma one_test_batch_ok: "test_batch_ok 1 10 1 one_test_batch"
  by (simp add: test_batch_ok_def ids_ok_def has_shape_def multi_hot_def one_test_batch_def)

lemma no_label_batch_ok: "test_batch_ok 1 10 1 no_label_batch"
  by (simp add: test_batch_ok_def ids_ok_def has_shape_def multi_hot_def no_label_batch_def)

lemma test_total_batch_2000: "test_total_batch 2000 = 1"
  by (simp add: test_total_batch_def eval_batch_size_def)

lemma same_test_batch_ok: "test_batches_ok 1 10 same_test_batch (test_total_batch 2000)"
  using one_test_batch_ok
  by (simp add: test_batches_ok_def test_total_batch_2000 same_test_batch_def one_test_batch_def)

lemma same_no_label_batch_ok: "test_batches_ok 1 10 same_no_label_batch (test_total_batch 2000)"
  using no_label_batch_ok
  by (simp add: test_batches_ok_def test_total_batch_2000 same_no_label_batch_def
      no_label_batch_def)

lemma batch_true_one_test_batch: "batch_true one_test_batch = 1"
  by (simp add: batch_true_def one_test_batch_def)

lemma batch_true_no_label_batch: "batch_true no_label_batch = 0"
  by (simp add: batch_true_def no_label_batch_def)

lemma predicted_ones_vars:
  assumes "j < 10"
  shows "predicted ones_vars one_test_batch 0 j = 1 / 2"
proof -
  have "(\<Sum>m<64. (embedding (adv_embeddings ones_vars) (test_t_batch one_test_batch) 0 m
                  - embedding (int_embeddings ones_vars) (test_h_batch one_test_batch) 0 m)
                 * replicate 64 (replicate 10 (0::real)) ! m ! j) = 0"
    using assms by (intro sum.neutral) simp
  then show ?thesis
    using assms by (simp add: predicted_def ones_vars_def sigmoid_0)
qed

lemma scores_ones_vars:
  "map (predicted ones_vars one_test_batch 0) [0..<10] = replicate 10 (1 / 2)"
  by (simp add: predicted_ones_vars numeral_eq_Suc upt_rec)

lemma top_k_row_ties:
  "top_k_row 1 (replicate 10 (1 / 2)) = [0]"
  "top_k_row 5 (replicate 10 (1 / 2)) = [0, 1, 2, 3, 4]"
  "top_k_row 10 (replicate 10 (1 / 2)) = [0, 1, 2, 3, 4, 5, 6, 7, 8, 9]"
  by (simp_all add: top_k_row_def upt_rec [of _ 10] upt_rec [of _ "Suc _"] numeral_eq_Suc
      sort_key_def)


lemma batch_hits_ones_vars:
  "batch_hits 10 1 ones_vars one_test_batch = 1"
  "batch_hits 10 5 ones_vars one_test_batch = 1"
  "batch_hits 10 10 ones_vars one_test_batch = 1"
proof -
  have r: "test_r_batch one_test_batch = [[1, 0, 0, 0, 0, 0, 0, 0, 0, 0]]"
    by (simp add: one_test_batch_def)
  show "batch_hits 10 1 ones_vars one_test_batch = 1"
    by (simp add: batch_hits_def true_in_top_def scores_ones_vars
        top_k_row_ties [unfolded One_nat_def] r)
  show "batch_hits 10 5 ones_vars one_test_batch = 1"
    by (simp add: batch_hits_def true_in_top_def scores_ones_vars top_k_row_ties r)
  show "batch_hits 10 10 ones_vars one_test_batch = 1"
    by (simp add: batch_hits_def true_in_top_def scores_ones_vars top_k_row_ties r)
qed

lemma np_divide_nonzero: "y \<noteq> 0 \<Longrightarrow> np_divide x y = Ratio (x / y)"
  by (simp add: np_divide_def)

lemma np_divide_zero: "np_divide 0 0 = NaN"
  by (simp add: np_divide_def)

subsection \<open>The ranking of the labels\<close>






subsection \<open>The evaluation claims\<close>






















text \<open>
  C3. For every well-formed evaluation batch the three hit counts of a run are computed
  and satisfy count@1 \<open>\<le>\<close> count@5 \<open>\<le>\<close> count@10; when the batch has a true label, so do their
  quotients by the number of true labels; and the aggregated \<open>Hits@k\<close> of any sequence of
  batches is monotone in \<open>k\<close>.
\<close>

theorem hits_monotone_in_k:
  assumes v: "variables_ok entity_total tag_total s"
      and h: "hits tag_total = Inr hit_nodes"
      and b: "test_batch_ok entity_total tag_total n b"
  shows "(\<exists>c1 c5 c10 total.
            run_eval tag_total s hit_nodes (test_feed b) dr = Inr ([c1, c5, c10], total) \<and>
            c1 \<le> c5 \<and> c5 \<le> c10 \<and>
            (0 < total \<longrightarrow>
               (\<exists>q1 q5 q10. np_divide c1 total = Ratio q1 \<and> np_divide c5 total = Ratio q5 \<and>
                  np_divide c10 total = Ratio q10 \<and> q1 \<le> q5 \<and> q5 \<le> q10))) \<and>
         Hits_at tag_total 1 s next_test_batch batches
           \<le> Hits_at tag_total 5 s next_test_batch batches \<and>
         Hits_at tag_total 5 s next_test_batch batches
           \<le> Hits_at tag_total 10 s next_test_batch batches"
proof (intro conjI)
  have t: "10 \<le> tag_total"
    and n: "hit_nodes = [hit_node tag_total 1, hit_node tag_total 5, hit_node tag_total 10]"
    using h by (simp_all add: hits_nodes)
  let ?c = "\<lambda>k. real (batch_hits tag_total k s b)"
  let ?total = "real (batch_true b)"
  have m: "?c 1 \<le> ?c 5" "?c 5 \<le> ?c 10"
    by (simp_all only: of_nat_le_iff batch_hits_mono)
  have q: "\<exists>q1 q5 q10. np_divide (?c 1) ?total = Ratio q1 \<and> np_divide (?c 5) ?total = Ratio q5 \<and>
             np_divide (?c 10) ?total = Ratio q10 \<and> q1 \<le> q5 \<and> q5 \<le> q10"
    if "0 < ?total"
  proof -
    from that have nz: "?total \<noteq> 0" by simp
    have "?c 1 / ?total \<le> ?c 5 / ?total" "?c 5 / ?total \<le> ?c 10 / ?total"
      using m that by (simp_all only: divide_right_mono less_imp_le)
    then show ?thesis by (simp only: np_divide_nonzero [OF nz]) blast
  qed
  from run_eval_value [OF v b t, of dr] m q
  show "\<exists>c1 c5 c10 total.
          run_eval tag_total s hit_nodes (test_feed b) dr = Inr ([c1, c5, c10], total) \<and>
          c1 \<le> c5 \<and> c5 \<le> c10 \<and>
          (0 < total \<longrightarrow>
             (\<exists>q1 q5 q10. np_divide c1 total = Ratio q1 \<and> np_divide c5 total = Ratio q5 \<and>
                np_divide c10 total = Ratio q10 \<and> q1 \<le> q5 \<and> q5 \<le> q10))"
    unfolding n by blast
  show "Hits_at tag_total 1 s next_test_batch batches
        \<le> Hits_at tag_total 5 s next_test_batch batches"
    by (rule Hits_at_mono) simp
  show "Hits_at tag_total 5 s next_test_batch batches
        \<le> Hits_at tag_total 10 s next_test_batch batches"
    by (rule Hits_at_mono) simp
qed

lemma hits_10: "hits 10 = Inr [hit_node 10 1, hit_node 10 5, hit_node 10 10]"
  by (simp add: hits_nodes)

theorem hits_monotone_in_k_witness:
  "variables_ok 1 10 ones_vars \<and>
   hits 10 = Inr [hit_node 10 1, hit_node 10 5, hit_node 10 10] \<and>
   test_batch_ok 1 10 1 one_test_batch \<and>
   (\<exists>c1 c5 c10 total.
      run_eval 10 ones_vars [hit_node 10 1, hit_node 10 5, hit_node 10 10]
        (test_feed one_test_batch) keep_all = Inr ([c1, c5, c10], total) \<and>
      c1 \<le> c5 \<and> c5 \<le> c10 \<and>
      (0 < total \<longrightarrow>
         (\<exists>q1 q5 q10. np_divide c1 total = Ratio q1 \<and> np_divide c5 total = Ratio q5 \<and>
            np_divide c10 total = Ratio q10 \<and> q1 \<le> q5 \<and> q5 \<le> q10))) \<and>
   Hits_at 10 1 ones_vars same_test_batch 1 \<le> Hits_at 10 5 ones_vars same_test_batch 1 \<and>
   Hits_at 10 5 ones_vars same_test_batch 1 \<le> Hits_at 10 10 ones_vars same_test_batch 1"
  using hits_monotone_in_k [OF ones_vars_ok hits_10 one_test_batch_ok,
      where dr = keep_all and next_test_batch = same_test_batch and batches = 1]
    ones_vars_ok hits_10 one_test_batch_ok
  by blast

text \<open>In a training run the draw does matter: it changes the hidden layer.\<close>

lemma dropout_changes_hidden_layer:
  "eval 10 ones_vars (train_feed one_edge_batch) keep_all pos_r_rep
   \<noteq> eval 10 ones_vars (train_feed one_edge_batch) (\<lambda>op i j. False) pos_r_rep"
proof -
  let ?x = "pos_r_batch one_edge_batch"
  have t: "(0::nat) < 10" by simp
  have pr: "eval 10 ones_vars (train_feed one_edge_batch) dr (Placeholder Pos_r)
            = Inr (Matrix (mat_of 1 10 (\<lambda>i j. ?x ! i ! j)))" for dr
    by (rule eval_placeholder_matrix [where fd = "train_feed one_edge_batch" and p = Pos_r,
          OF train_feed_simps(3) _ train_batch_okD(3) [OF one_edge_batch_ok]]) simp
  have v: "eval 10 ones_vars (train_feed one_edge_batch) dr pos_r_rep
           = Inr (Matrix (mat_of 1 rep_size (encode ones_vars (dr Dropout_pos) ?x)))" for dr
    unfolding loss_nodes by (rule eval_encoder [OF ones_vars_ok t pr])
  have "(\<Sum>k<10. ?x ! 0 ! k * replicate 10 (replicate 64 (1::real)) ! k ! 0) = 1"
    by (simp add: one_edge_batch_def lessThan_nat_numeral lessThan_Suc)
  then have kept: "encode ones_vars (keep_all Dropout_pos) ?x 0 0 = 2 * tanh 1"
    by (simp add: encode_def ones_vars_def keep_all_def keep_prob_def)
  have dropped: "encode ones_vars (\<lambda>i j. False) ?x 0 0 = 0"
    by (simp add: encode_def)
  have "tanh (1::real) \<noteq> 0" by simp
  then have "mat_of 1 rep_size (encode ones_vars (keep_all Dropout_pos) ?x) ! 0 ! 0
             \<noteq> mat_of 1 rep_size (encode ones_vars (\<lambda>i j. False) ?x) ! 0 ! 0"
    by (simp add: kept dropped rep_size_def)
  then have "mat_of 1 rep_size (encode ones_vars (keep_all Dropout_pos) ?x)
             \<noteq> mat_of 1 rep_size (encode ones_vars (\<lambda>i j. False) ?x)"
    by metis
  then show ?thesis
    by (simp only: v sum.inject tensor.inject not_False_eq_True)
qed

text \<open>
  C8. The prediction node of the evaluation contains no dropout operation and reads
  neither encoder variable; for fixed variables and a fixed feed, a run of the evaluation
  nodes returns the same hit counts and true-label total (or the same error) under any
  two random draws, and so does the whole evaluation block.
\<close>

theorem evaluation_ignores_dropout:
  "dropouts_of pos_r_minus_dec = {} \<and>
   vars_of pos_r_minus_dec = {Int_embeddings, Adv_embeddings, Decoder_w, Decoder_b} \<and>
   (\<forall>hit_nodes. hits tag_total = Inr hit_nodes \<longrightarrow>
      run_eval tag_total s hit_nodes fd dr = run_eval tag_total s hit_nodes fd dr') \<and>
   evaluate tag_total s next_test_batch draw num_examples
   = evaluate tag_total s next_test_batch draw' num_examples"
  using eval_nodes_dropouts(1) vars_of_pos_r_minus_dec
    run_eval_draw_free [where tag_total = tag_total and s = s and fd = fd and dr = dr
      and dr' = dr']
    evaluate_draw_free [where tag_total = tag_total and s = s
      and next_test_batch = next_test_batch and draw = draw and draw' = draw'
      and num_examples = num_examples]
  by blast

theorem evaluation_ignores_dropout_witness:
  "hits 10 = Inr [hit_node 10 1, hit_node 10 5, hit_node 10 10] \<and>
   run_eval 10 ones_vars [hit_node 10 1, hit_node 10 5, hit_node 10 10]
     (test_feed one_test_batch) keep_all
   = run_eval 10 ones_vars [hit_node 10 1, hit_node 10 5, hit_node 10 10]
       (test_feed one_test_batch) (\<lambda>op i j. False) \<and>
   evaluate 10 ones_vars same_test_batch drop_all_eval 2000 = Inr [Ratio 1, Ratio 1, Ratio 1] \<and>
   eval 10 ones_vars (train_feed one_edge_batch) keep_all pos_r_rep
   \<noteq> eval 10 ones_vars (train_feed one_edge_batch) (\<lambda>op i j. False) pos_r_rep"
proof -
  have "evaluate 10 ones_vars same_test_batch keep_all_eval 2000
        = Inr [Ratio 1, Ratio 1, Ratio 1]"
    using evaluate_value [OF ones_vars_ok _ same_test_batch_ok, of keep_all_eval]
    by (simp add: test_total_batch_2000 divide_hits_def same_test_batch_def
        batch_hits_ones_vars batch_hits_ones_vars [unfolded One_nat_def]
        batch_true_one_test_batch np_divide_def)
  with evaluation_ignores_dropout
    [where tag_total = 10 and s = ones_vars and fd = "test_feed one_test_batch"
       and dr = keep_all and dr' = "\<lambda>op i j. False" and next_test_batch = same_test_batch
       and draw = keep_all_eval and draw' = drop_all_eval and num_examples = 2000]
    hits_10 dropout_changes_hidden_layer
  show ?thesis by simp
qed

text \<open>
  C9. The evaluation block divides by the accumulated number of true labels without a
  test. With fewer test examples than \<^verbatim>\<open>eval_batch_size\<close> there is no test batch and the
  division raises \<^verbatim>\<open>ZeroDivisionError\<close>, which nothing catches; with test batches whose
  label matrices hold no positive label the divisor is 0 as well, and the reported
  numbers are \<^verbatim>\<open>nan\<close>.
\<close>

theorem hits_division_unguarded:
  assumes h: "hits tag_total = Inr hit_nodes"
  shows "(num_examples < eval_batch_size \<longrightarrow>
            evaluate tag_total s next_test_batch draw num_examples = Inl ZeroDivisionError) \<and>
         (variables_ok entity_total tag_total s \<and> 0 < test_total_batch num_examples \<and>
          test_batches_ok entity_total tag_total next_test_batch
            (test_total_batch num_examples) \<and>
          (\<Sum>i<test_total_batch num_examples. batch_true (next_test_batch i)) = 0 \<longrightarrow>
            evaluate tag_total s next_test_batch draw num_examples = Inr [NaN, NaN, NaN])"
proof (intro conjI impI)
  assume "num_examples < eval_batch_size"
  then have "test_total_batch num_examples = 0"
    by (simp add: test_total_batch_def)
  then show "evaluate tag_total s next_test_batch draw num_examples = Inl ZeroDivisionError"
    by (simp add: evaluate_def h divide_hits_def hits_k_def)
next
  assume a: "variables_ok entity_total tag_total s \<and> 0 < test_total_batch num_examples \<and>
             test_batches_ok entity_total tag_total next_test_batch
               (test_total_batch num_examples) \<and>
             (\<Sum>i<test_total_batch num_examples. batch_true (next_test_batch i)) = 0"
  have t: "10 \<le> tag_total" using h by (simp add: hits_nodes)
  have z: "(\<Sum>i<test_total_batch num_examples. batch_hits tag_total k s (next_test_batch i)) = 0"
    for k
    using total_hits_le [of entity_total tag_total next_test_batch
        "test_total_batch num_examples" k s] a
    by simp
  from a have v: "variables_ok entity_total tag_total s"
    and n: "0 < test_total_batch num_examples"
    and b: "test_batches_ok entity_total tag_total next_test_batch
              (test_total_batch num_examples)"
    and c: "(\<Sum>i<test_total_batch num_examples. batch_true (next_test_batch i)) = 0"
    by blast+
  show "evaluate tag_total s next_test_batch draw num_examples = Inr [NaN, NaN, NaN]"
    by (simp only: evaluate_value [OF v t b] z c divide_hits_def n if_True list.map
        of_nat_0 np_divide_zero)
qed

theorem hits_division_unguarded_witness:
  "hits 10 = Inr [hit_node 10 1, hit_node 10 5, hit_node 10 10] \<and>
   (1999::nat) < eval_batch_size \<and>
   evaluate 10 ones_vars same_test_batch keep_all_eval 1999 = Inl ZeroDivisionError \<and>
   variables_ok 1 10 ones_vars \<and> 0 < test_total_batch 2000 \<and>
   test_batches_ok 1 10 same_no_label_batch (test_total_batch 2000) \<and>
   (\<Sum>i<test_total_batch 2000. batch_true (same_no_label_batch i)) = 0 \<and>
   evaluate 10 ones_vars same_no_label_batch keep_all_eval 2000 = Inr [NaN, NaN, NaN]"
proof -
  have small: "(1999::nat) < eval_batch_size" by (simp add: eval_batch_size_def)
  have pos: "0 < test_total_batch 2000" by (simp add: test_total_batch_2000)
  have zero: "(\<Sum>i<test_total_batch 2000. batch_true (same_no_label_batch i)) = 0"
    by (simp add: same_no_label_batch_def batch_true_no_label_batch)
  from hits_division_unguarded
    [OF hits_10, where num_examples = 1999 and s = ones_vars
       and next_test_batch = same_test_batch and draw = keep_all_eval] small
  have first: "evaluate 10 ones_vars same_test_batch keep_all_eval 1999 = Inl ZeroDivisionError"
    by blast
  from hits_division_unguarded
    [OF hits_10, where num_examples = 2000 and s = ones_vars and entity_total = 1
       and next_test_batch = same_no_label_batch and draw = keep_all_eval]
    ones_vars_ok pos same_no_label_batch_ok zero
  have second: "evaluate 10 ones_vars same_no_label_batch keep_all_eval 2000
                = Inr [NaN, NaN, NaN]"
    by blast
  from first second hits_10 small ones_vars_ok pos same_no_label_batch_ok zero
  show ?thesis by blast
qed

end
